theory Spec2Isabelle
  imports Main "HOL-Library.Monad_Syntax"
begin

section \<open>The scheduling board's data-access layer\<close>

text \<open>
  The repository holds the data-access module \<^verbatim>\<open>apiService.ts\<close> in four revisions:
  \<^verbatim>\<open>src/services/apiService.ts\<close>, and the files \<^verbatim>\<open>src/unnamed/part_000\<close>,
  \<^verbatim>\<open>part_001\<close> and \<^verbatim>\<open>part_002\<close>. A function keeps the name it has in the source;
  since the revisions declare the same names, the functions of
  \<^verbatim>\<open>src/services/apiService.ts\<close> carry the plain name and those of the other files
  the suffix \<open>_part000\<close> or \<open>_part002\<close>.

  A promise is modelled by its outcome: \<open>Inl\<close> of the thrown value when it rejects,
  \<open>Inr\<close> of the value when it resolves, paired with the module's state afterwards.
\<close>

subsection \<open>The entities (\<^verbatim>\<open>types.ts\<close>)\<close>

text \<open>
  A \<^verbatim>\<open>Date\<close> is its time value, the milliseconds since the epoch; every date of
  the model is a valid one. \<^verbatim>\<open>progress\<close> is a whole number. The fields \<^verbatim>\<open>id\<close> and
  \<^verbatim>\<open>name\<close>, which every entity has, are prefixed with the entity.
\<close>

type_synonym date = int

record Task =
  task_id :: string
  task_name :: string
  startDate :: date
  endDate :: date
  color :: string
  employeeId :: string
  progress :: int
  description :: "string option"

record Project =
  project_id :: string
  project_name :: string
  tasks :: "Task list"

record Employee =
  employee_id :: string
  employee_name :: string
  departmentId :: string

record Department =
  department_id :: string
  department_name :: string
  department_employees :: "Employee list"

record AppData =
  projects :: "Project list"
  departments :: "Department list"
  employees :: "Employee list"

subsection \<open>JSON values and the browser's store\<close>

text \<open>
  \<^verbatim>\<open>JSON.stringify\<close> and \<^verbatim>\<open>JSON.parse\<close> belong to the platform. A stored text is
  modelled by what \<^verbatim>\<open>JSON.parse\<close> makes of it: the value it reads (\<open>Serialized\<close>),
  or nothing, when the text is empty or is rejected. \<open>JIso d\<close> is the string
  \<^verbatim>\<open>Date.prototype.toJSON\<close> writes for the date \<open>d\<close> (and \<^verbatim>\<open>new Date\<close> reads back as
  \<open>d\<close>); \<open>JDay n\<close> is the calendar-date string \<^verbatim>\<open>YYYY-MM-DD\<close> of day \<open>n\<close> since the
  epoch. The members of an object are kept in one fixed order.
\<close>

datatype json =
    JNull
  | JBool bool
  | JNum int
  | JStr string
  | JIso date
  | JDay int
  | JArr "json list"
  | JObj "(string \<times> json) list"

datatype item = Empty_text | Unparseable | Serialized json

type_synonym storage = "string \<rightharpoonup> item"

definition DATA_KEY :: string where
  "DATA_KEY = ''gantt-app-data''"

definition SUPABASE_CONFIG_KEY :: string where
  "SUPABASE_CONFIG_KEY = ''gantt-supabase-config''"

text \<open>Reading a member of a parsed value: only an object has members.\<close>

fun member :: "json \<Rightarrow> string \<Rightarrow> json option" where
  "member (JObj kvs) k = map_of kvs k"
| "member _ k = None"

text \<open>JavaScript's truthiness, on a parsed value.\<close>

fun truthy :: "json \<Rightarrow> bool" where
  "truthy JNull = False"
| "truthy (JBool b) = b"
| "truthy (JNum n) = (n \<noteq> 0)"
| "truthy (JStr s) = (s \<noteq> [])"
| "truthy _ = True"

fun isArray :: "json option \<Rightarrow> bool" where
  "isArray (Some (JArr _)) = True"
| "isArray _ = False"

subsubsection \<open>Writing the entities\<close>

definition Task_toJSON :: "Task \<Rightarrow> json" where
  "Task_toJSON t = JObj
     ([(''id'', JStr (task_id t)), (''name'', JStr (task_name t)),
       (''startDate'', JIso (startDate t)), (''endDate'', JIso (endDate t)),
       (''color'', JStr (color t)), (''employeeId'', JStr (employeeId t)),
       (''progress'', JNum (progress t))]
      @ (case description t of None \<Rightarrow> [] | Some d \<Rightarrow> [(''description'', JStr d)]))"

definition Project_toJSON :: "Project \<Rightarrow> json" where
  "Project_toJSON p = JObj
     [(''id'', JStr (project_id p)), (''name'', JStr (project_name p)),
      (''tasks'', JArr (map Task_toJSON (tasks p)))]"

definition Employee_toJSON :: "Employee \<Rightarrow> json" where
  "Employee_toJSON e = JObj
     [(''id'', JStr (employee_id e)), (''name'', JStr (employee_name e)),
      (''departmentId'', JStr (departmentId e))]"

definition Department_toJSON :: "Department \<Rightarrow> json" where
  "Department_toJSON d = JObj
     [(''id'', JStr (department_id d)), (''name'', JStr (department_name d)),
      (''employees'', JArr (map Employee_toJSON (department_employees d)))]"

definition AppData_toJSON :: "AppData \<Rightarrow> json" where
  "AppData_toJSON a = JObj
     [(''projects'', JArr (map Project_toJSON (projects a))),
      (''departments'', JArr (map Department_toJSON (departments a))),
      (''employees'', JArr (map Employee_toJSON (employees a)))]"

subsubsection \<open>Reading the entities back\<close>

text \<open>
  The source returns the parsed value as it is, under the type \<^verbatim>\<open>AppData\<close>. The model
  is typed, so it reads the value at that type: \<open>None\<close> when the value has not the
  shape \<open>AppData_toJSON\<close> writes. \<open>Task_ofJSON\<close> holds the two \<^verbatim>\<open>new Date\<close> of the
  reading loop.
\<close>

fun asString :: "json option \<Rightarrow> string option" where
  "asString (Some (JStr s)) = Some s"
| "asString _ = None"

fun asNumber :: "json option \<Rightarrow> int option" where
  "asNumber (Some (JNum n)) = Some n"
| "asNumber _ = None"

fun newDate :: "json option \<Rightarrow> date option" where
  "newDate (Some (JIso d)) = Some d"
| "newDate _ = None"

fun asOptionalString :: "json option \<Rightarrow> string option option" where
  "asOptionalString None = Some None"
| "asOptionalString (Some (JStr s)) = Some (Some s)"
| "asOptionalString _ = None"

definition Task_ofJSON :: "json \<Rightarrow> Task option" where
  "Task_ofJSON j = do {
     i \<leftarrow> asString (member j ''id'');
     n \<leftarrow> asString (member j ''name'');
     s \<leftarrow> newDate (member j ''startDate'');
     e \<leftarrow> newDate (member j ''endDate'');
     c \<leftarrow> asString (member j ''color'');
     w \<leftarrow> asString (member j ''employeeId'');
     p \<leftarrow> asNumber (member j ''progress'');
     d \<leftarrow> asOptionalString (member j ''description'');
     Some \<lparr>task_id = i, task_name = n, startDate = s, endDate = e, color = c,
           employeeId = w, progress = p, description = d\<rparr>
   }"

fun those_map :: "('a \<Rightarrow> 'b option) \<Rightarrow> 'a list \<Rightarrow> 'b list option" where
  "those_map f [] = Some []"
| "those_map f (x # xs) =
     (case f x of None \<Rightarrow> None
      | Some y \<Rightarrow> (case those_map f xs of None \<Rightarrow> None | Some ys \<Rightarrow> Some (y # ys)))"

text \<open>
  \<open>tasks_ofJSON\<close> is the branch on \<^verbatim>\<open>p.tasks\<close> of the reading loop: a falsy value
  (also a missing one) becomes the empty list, an array is read task by task, and
  on any other value \<^verbatim>\<open>p.tasks.forEach\<close> is not a function.
\<close>

definition tasks_ofJSON :: "json option \<Rightarrow> Task list option" where
  "tasks_ofJSON v =
     (case v of
        None \<Rightarrow> Some []
      | Some (JArr ts) \<Rightarrow> those_map Task_ofJSON ts
      | Some w \<Rightarrow> (if truthy w then None else Some []))"

definition Project_ofJSON :: "json \<Rightarrow> Project option" where
  "Project_ofJSON j = do {
     i \<leftarrow> asString (member j ''id'');
     n \<leftarrow> asString (member j ''name'');
     ts \<leftarrow> tasks_ofJSON (member j ''tasks'');
     Some \<lparr>project_id = i, project_name = n, tasks = ts\<rparr>
   }"

definition Employee_ofJSON :: "json \<Rightarrow> Employee option" where
  "Employee_ofJSON j = do {
     i \<leftarrow> asString (member j ''id'');
     n \<leftarrow> asString (member j ''name'');
     d \<leftarrow> asString (member j ''departmentId'');
     Some \<lparr>employee_id = i, employee_name = n, departmentId = d\<rparr>
   }"

fun array_ofJSON :: "(json \<Rightarrow> 'a option) \<Rightarrow> json option \<Rightarrow> 'a list option" where
  "array_ofJSON f (Some (JArr js)) = those_map f js"
| "array_ofJSON f _ = None"

definition Department_ofJSON :: "json \<Rightarrow> Department option" where
  "Department_ofJSON j = do {
     i \<leftarrow> asString (member j ''id'');
     n \<leftarrow> asString (member j ''name'');
     es \<leftarrow> array_ofJSON Employee_ofJSON (member j ''employees'');
     Some \<lparr>department_id = i, department_name = n, department_employees = es\<rparr>
   }"

text \<open>
  \<^verbatim>\<open>src/services/apiService.ts\<close> never looks at the departments and the employees of
  the stored value: it carries them from the read to the write. A value without
  them is read with empty lists.
\<close>

fun optional_array_ofJSON :: "(json \<Rightarrow> 'a option) \<Rightarrow> json option \<Rightarrow> 'a list option" where
  "optional_array_ofJSON f None = Some []"
| "optional_array_ofJSON f (Some v) = array_ofJSON f (Some v)"

definition AppData_ofJSON :: "json \<Rightarrow> AppData option" where
  "AppData_ofJSON j = do {
     ps \<leftarrow> array_ofJSON Project_ofJSON (member j ''projects'');
     ds \<leftarrow> optional_array_ofJSON Department_ofJSON (member j ''departments'');
     es \<leftarrow> optional_array_ofJSON Employee_ofJSON (member j ''employees'');
     Some \<lparr>projects = ps, departments = ds, employees = es\<rparr>
   }"

text \<open>
  The reading loop of \<^verbatim>\<open>part_002\<close> is \<^verbatim>\<open>p.tasks?.forEach(...)\<close>: it leaves a project
  without tasks as it is, and it does not look at the departments and the
  employees; the operations of that revision then use the three lists of the value
  it returns. The two readers below are the readers of the written shape, which has
  the three lists and the tasks of every project: they read back every dataset that
  was written (\<open>AppData_part002_roundtrip\<close>), and they reject the values that lack
  one of these members, which the source does not reject.
\<close>

definition Project_ofJSON_part002 :: "json \<Rightarrow> Project option" where
  "Project_ofJSON_part002 j = do {
     i \<leftarrow> asString (member j ''id'');
     n \<leftarrow> asString (member j ''name'');
     ts \<leftarrow> array_ofJSON Task_ofJSON (member j ''tasks'');
     Some \<lparr>project_id = i, project_name = n, tasks = ts\<rparr>
   }"

definition AppData_ofJSON_part002 :: "json \<Rightarrow> AppData option" where
  "AppData_ofJSON_part002 j = do {
     ps \<leftarrow> array_ofJSON Project_ofJSON_part002 (member j ''projects'');
     ds \<leftarrow> array_ofJSON Department_ofJSON (member j ''departments'');
     es \<leftarrow> array_ofJSON Employee_ofJSON (member j ''employees'');
     Some \<lparr>projects = ps, departments = ds, employees = es\<rparr>
   }"

subsection \<open>The remote client, the environment and the module's state\<close>

text \<open>
  The Supabase client is a library: the model takes its answers as given. A client
  is the answers of its backend to the queries the module issues: a read has the
  table and the columns it is ordered by, a write is a \<open>request\<close> and answers with
  the error, if any. A row holds the columns the module reads; a calendar-date
  column is the number of its day.
\<close>

record PostgrestError =
  code :: string
  message :: string

record 'a response =
  data :: "'a option"
  error :: "PostgrestError option"

record project_row =
  row_id :: string
  row_name :: string

record task_row =
  task_row_id :: string
  project_id_col :: string
  task_row_name :: string
  start_date :: int
  end_date :: int
  color_col :: string
  employee_id_col :: string
  progress_col :: int
  description_col :: "string option"

record department_row =
  department_row_id :: string
  department_row_name :: string

record employee_row =
  employee_row_id :: string
  employee_row_name :: string
  department_id_col :: string

datatype request =
    Insert string json
  | Update string json string
  | Delete string string
  | Upsert string "json list"

record SupabaseClient =
  select_projects :: "string list \<Rightarrow> project_row list response"
  select_tasks :: "string list \<Rightarrow> task_row list response"
  select_departments :: "string list \<Rightarrow> department_row list response"
  select_employees :: "string list \<Rightarrow> employee_row list response"
  select_projects_id_limit1 :: "string list response"
  select_setting :: "string \<Rightarrow> json response"
  send :: "request \<Rightarrow> PostgrestError option"

text \<open>
  What a function throws: the backend's error object as it is, or an error of its
  own. An entry of the console keeps the label and the error that was logged, not
  the text made of it.
\<close>

datatype thrown = Backend PostgrestError | Error string | SyntaxError | TypeError

datatype log = Console_log string | Console_warn string | Console_error string thrown

text \<open>
  \<open>env\<close> is what is fixed when the module is loaded: the compiled-in or
  environment configuration, the day \<^verbatim>\<open>today\<close> (local midnight), the library's
  \<^verbatim>\<open>createClient\<close>, which gives a client or throws, and the browser's time zone:
  \<open>shift_days env d n\<close> is the time value of the \<^verbatim>\<open>Date\<close> \<open>d\<close> after
  \<^verbatim>\<open>setDate(getDate() + n)\<close>. \<open>state\<close> is the module's two variables, the browser's
  store and the console.
\<close>

record env =
  GLOBAL_SUPABASE_URL :: string
  GLOBAL_SUPABASE_KEY :: string
  today :: date
  createClient :: "string \<Rightarrow> string \<Rightarrow> thrown + SupabaseClient"
  shift_days :: "date \<Rightarrow> int \<Rightarrow> date"

record state =
  supabase :: "SupabaseClient option"
  useSupabase :: bool
  localStorage :: storage
  console :: "log list"

type_synonym 'a promise = "(thrown + 'a) \<times> state"

definition console_add :: "log \<Rightarrow> state \<Rightarrow> state" where
  "console_add l s = s\<lparr>console := console s @ [l]\<rparr>"

text \<open>\<^verbatim>\<open>data || []\<close>\<close>

definition orEmpty :: "'a list option \<Rightarrow> 'a list" where
  "orEmpty d = (case d of None \<Rightarrow> [] | Some xs \<Rightarrow> xs)"

text \<open>
  \<^verbatim>\<open>xs.find(p)\<close> gives the first element that satisfies \<open>p\<close>, by reference: what the
  caller then assigns to it changes the element in the array. \<open>update_first\<close> is
  that assignment.
\<close>

fun update_first :: "('a \<Rightarrow> bool) \<Rightarrow> ('a \<Rightarrow> 'a) \<Rightarrow> 'a list \<Rightarrow> 'a list" where
  "update_first p f [] = []"
| "update_first p f (x # xs) = (if p x then f x # xs else x # update_first p f xs)"

subsection \<open>Dates (\<^verbatim>\<open>dateUtils.ts\<close>)\<close>

text \<open>
  \<^verbatim>\<open>addDays\<close> copies the date and moves the day of the month in local time, which is
  the time zone's to say. \<open>isoDay\<close> is \<^verbatim>\<open>toISOString().split('T')[0]\<close>, the day of the
  date in UTC, and \<open>dayDate\<close> is \<^verbatim>\<open>new Date\<close> of such a string, the day's midnight in UTC.
\<close>

definition msPerDay :: int where
  "msPerDay = 86400000"

definition addDays :: "env \<Rightarrow> date \<Rightarrow> int \<Rightarrow> date" where
  "addDays env d days = shift_days env d days"

definition isoDay :: "date \<Rightarrow> int" where
  "isoDay d = d div msPerDay"

definition dayDate :: "int \<Rightarrow> date" where
  "dayDate n = n * msPerDay"

subsection \<open>The seed data\<close>

text \<open>The display names of the seed are Korean; they are given by their bytes in UTF-8.\<close>

definition name_e1 :: string where
  "name_e1 =
     [CHR 0xEC, CHR 0x95, CHR 0xA8, CHR 0xEB, CHR 0xA6, CHR 0xAC, CHR 0xEC, CHR 0x8A,
      CHR 0xA4, CHR 0x20, CHR 0xEC, CHR 0xA1, CHR 0xB4, CHR 0xEC, CHR 0x8A, CHR 0xA8]"

definition name_e2 :: string where
  "name_e2 =
     [CHR 0xEB, CHR 0xB0, CHR 0xA5, CHR 0x20, CHR 0xEC, CHR 0x9C, CHR 0x8C, CHR 0xEB,
      CHR 0xA6, CHR 0xAC, CHR 0xEC, CHR 0x97, CHR 0x84, CHR 0xEC, CHR 0x8A, CHR 0xA4]"

definition name_e3 :: string where
  "name_e3 =
     [CHR 0xEC, CHR 0xB0, CHR 0xB0, CHR 0xEB, CHR 0xA6, CHR 0xAC, CHR 0x20, CHR 0xEB,
      CHR 0xB8, CHR 0x8C, CHR 0xEB, CHR 0x9D, CHR 0xBC, CHR 0xEC, CHR 0x9A, CHR 0xB4]"

definition name_e4 :: string where
  "name_e4 =
     [CHR 0xEB, CHR 0x8B, CHR 0xA4, CHR 0xEC, CHR 0x9D, CHR 0xB4, CHR 0xEC, CHR 0x95,
      CHR 0x84, CHR 0xEB, CHR 0x82, CHR 0x98, CHR 0x20, CHR 0xEB, CHR 0xB0, CHR 0x80,
      CHR 0xEB, CHR 0x9F, CHR 0xAC]"

definition name_e5 :: string where
  "name_e5 =
     [CHR 0xEC, CHR 0x9D, CHR 0xB4, CHR 0xEB, CHR 0x93, CHR 0xA0, CHR 0x20, CHR 0xEB,
      CHR 0x8D, CHR 0xB0, CHR 0xEC, CHR 0x9D, CHR 0xB4, CHR 0xEB, CHR 0xB9, CHR 0x84,
      CHR 0xEC, CHR 0x8A, CHR 0xA4]"

definition name_d1 :: string where
  "name_d1 =
     [CHR 0xEC, CHR 0x97, CHR 0x94, CHR 0xEC, CHR 0xA7, CHR 0x80, CHR 0xEB, CHR 0x8B,
      CHR 0x88, CHR 0xEC, CHR 0x96, CHR 0xB4, CHR 0xEB, CHR 0xA7, CHR 0x81]"

definition name_d2 :: string where
  "name_d2 =
     [CHR 0xEB, CHR 0xA7, CHR 0x88, CHR 0xEC, CHR 0xBC, CHR 0x80, CHR 0xED, CHR 0x8C,
      CHR 0x85]"

definition name_d3 :: string where
  "name_d3 =
     [CHR 0xEC, CHR 0xA0, CHR 0x9C, CHR 0xED, CHR 0x92, CHR 0x88]"

definition name_p1 :: string where
  "name_p1 =
     [CHR 0xEC, CHR 0xBF, CHR 0xBC, CHR 0xED, CHR 0x84, CHR 0xB0, CHR 0xEB, CHR 0xB3,
      CHR 0x84, CHR 0x20, CHR 0xEC, CHR 0x9B, CHR 0xB9, CHR 0xEC, CHR 0x82, CHR 0xAC,
      CHR 0xEC, CHR 0x9D, CHR 0xB4, CHR 0xED, CHR 0x8A, CHR 0xB8, CHR 0x20, CHR 0xEB,
      CHR 0xA6, CHR 0xAC, CHR 0xEB, CHR 0x94, CHR 0x94, CHR 0xEC, CHR 0x9E, CHR 0x90,
      CHR 0xEC, CHR 0x9D, CHR 0xB8]"

definition name_t1 :: string where
  "name_t1 =
     [CHR 0x41, CHR 0x50, CHR 0x49, CHR 0x20, CHR 0xEC, CHR 0x84, CHR 0xA4, CHR 0xEA,
      CHR 0xB3, CHR 0x84, CHR 0x20, CHR 0xEB, CHR 0xB0, CHR 0x8F, CHR 0x20, CHR 0xEA,
      CHR 0xB0, CHR 0x9C, CHR 0xEB, CHR 0xB0, CHR 0x9C]"

definition name_t2 :: string where
  "name_t2 =
     [CHR 0xED, CHR 0x94, CHR 0x84, CHR 0xEB, CHR 0xA1, CHR 0xA0, CHR 0xED, CHR 0x8A,
      CHR 0xB8, CHR 0xEC, CHR 0x97, CHR 0x94, CHR 0xEB, CHR 0x93, CHR 0x9C, CHR 0x20,
      CHR 0x55, CHR 0x49, CHR 0x2F, CHR 0x55, CHR 0x58, CHR 0x20, CHR 0xEA, CHR 0xB5,
      CHR 0xAC, CHR 0xED, CHR 0x98, CHR 0x84]"

definition name_t3 :: string where
  "name_t3 =
     [CHR 0xEC, CHR 0x82, CHR 0xAC, CHR 0xEC, CHR 0x9A, CHR 0xA9, CHR 0xEC, CHR 0x9E,
      CHR 0x90, CHR 0x20, CHR 0xED, CHR 0x94, CHR 0xBC, CHR 0xEB, CHR 0x93, CHR 0x9C,
      CHR 0xEB, CHR 0xB0, CHR 0xB1, CHR 0x20, CHR 0xEC, CHR 0x88, CHR 0x98, CHR 0xEC,
      CHR 0xA7, CHR 0x91]"

definition text_t1 :: string where
  "text_t1 =
     [CHR 0xEB, CHR 0xB0, CHR 0xB1, CHR 0xEC, CHR 0x97, CHR 0x94, CHR 0xEB, CHR 0x93,
      CHR 0x9C, CHR 0x20, CHR 0x41, CHR 0x50, CHR 0x49, CHR 0x20, CHR 0xEC, CHR 0x97,
      CHR 0x94, CHR 0xEB, CHR 0x93, CHR 0x9C, CHR 0xED, CHR 0x8F, CHR 0xAC, CHR 0xEC,
      CHR 0x9D, CHR 0xB8, CHR 0xED, CHR 0x8A, CHR 0xB8, CHR 0x2E]"

definition text_t2 :: string where
  "text_t2 =
     [CHR 0x52, CHR 0x65, CHR 0x61, CHR 0x63, CHR 0x74, CHR 0x20, CHR 0xEC, CHR 0xBB,
      CHR 0xB4, CHR 0xED, CHR 0x8F, CHR 0xAC, CHR 0xEB, CHR 0x84, CHR 0x8C, CHR 0xED,
      CHR 0x8A, CHR 0xB8, CHR 0x20, CHR 0xEA, CHR 0xB0, CHR 0x9C, CHR 0xEB, CHR 0xB0,
      CHR 0x9C, CHR 0x2E]"

definition text_t3 :: string where
  "text_t3 =
     [CHR 0xEC, CHR 0x82, CHR 0xAC, CHR 0xEC, CHR 0x9A, CHR 0xA9, CHR 0xEC, CHR 0x84,
      CHR 0xB1, CHR 0x20, CHR 0xED, CHR 0x85, CHR 0x8C, CHR 0xEC, CHR 0x8A, CHR 0xA4,
      CHR 0xED, CHR 0x8A, CHR 0xB8, CHR 0x20, CHR 0xEC, CHR 0xA7, CHR 0x84, CHR 0xED,
      CHR 0x96, CHR 0x89, CHR 0x2E]"

definition name_p1_part002 :: string where
  "name_p1_part002 =
     [CHR 0xEC, CHR 0x83, CHR 0x98, CHR 0xED, CHR 0x94, CHR 0x8C, CHR 0x20, CHR 0xED,
      CHR 0x94, CHR 0x84, CHR 0xEB, CHR 0xA1, CHR 0x9C, CHR 0xEC, CHR 0xA0, CHR 0x9D,
      CHR 0xED, CHR 0x8A, CHR 0xB8]"

definition name_t1_part002 :: string where
  "name_t1_part002 =
     [CHR 0xEC, CHR 0x98, CHR 0x88, CHR 0xEC, CHR 0x8B, CHR 0x9C, CHR 0x20, CHR 0xED,
      CHR 0x83, CHR 0x9C, CHR 0xEC, CHR 0x8A, CHR 0xA4, CHR 0xED, CHR 0x81, CHR 0xAC]"

definition initialEmployees :: "Employee list" where
  "initialEmployees =
     [\<lparr>employee_id = ''e1'', employee_name = name_e1, departmentId = ''d1''\<rparr>,
      \<lparr>employee_id = ''e2'', employee_name = name_e2, departmentId = ''d1''\<rparr>,
      \<lparr>employee_id = ''e3'', employee_name = name_e3, departmentId = ''d2''\<rparr>,
      \<lparr>employee_id = ''e4'', employee_name = name_e4, departmentId = ''d2''\<rparr>,
      \<lparr>employee_id = ''e5'', employee_name = name_e5, departmentId = ''d3''\<rparr>]"

definition initialDepartments :: "Department list" where
  "initialDepartments =
     [\<lparr>department_id = ''d1'', department_name = name_d1,
       department_employees = filter (\<lambda>e. departmentId e = ''d1'') initialEmployees\<rparr>,
      \<lparr>department_id = ''d2'', department_name = name_d2,
       department_employees = filter (\<lambda>e. departmentId e = ''d2'') initialEmployees\<rparr>,
      \<lparr>department_id = ''d3'', department_name = name_d3,
       department_employees = filter (\<lambda>e. departmentId e = ''d3'') initialEmployees\<rparr>]"

definition getInitialData :: "env \<Rightarrow> AppData" where
  "getInitialData env =
     \<lparr>projects =
        [\<lparr>project_id = ''p1'', project_name = name_p1,
          tasks =
            [\<lparr>task_id = ''t1'', task_name = name_t1,
              startDate = addDays env (today env) 1, endDate = addDays env (today env) 10,
              color = ''bg-blue-500'', employeeId = ''e1'', progress = 80,
              description = Some text_t1\<rparr>,
             \<lparr>task_id = ''t2'', task_name = name_t2,
              startDate = addDays env (today env) 2, endDate = addDays env (today env) 12,
              color = ''bg-sky-500'', employeeId = ''e2'', progress = 50,
              description = Some text_t2\<rparr>,
             \<lparr>task_id = ''t3'', task_name = name_t3,
              startDate = addDays env (today env) 13, endDate = addDays env (today env) 20,
              color = ''bg-purple-500'', employeeId = ''e5'', progress = 25,
              description = Some text_t3\<rparr>]\<rparr>],
      departments = initialDepartments,
      employees = initialEmployees\<rparr>"

text \<open>
  \<^verbatim>\<open>part_000\<close> builds the departments of its seed from \<^verbatim>\<open>defaultDepartments\<close> and
  \<^verbatim>\<open>defaultEmployees\<close>; the projects are the same.
\<close>

definition defaultDepartments :: "Department list" where
  "defaultDepartments =
     [\<lparr>department_id = ''d1'', department_name = name_d1, department_employees = []\<rparr>,
      \<lparr>department_id = ''d2'', department_name = name_d2, department_employees = []\<rparr>,
      \<lparr>department_id = ''d3'', department_name = name_d3, department_employees = []\<rparr>]"

definition getInitialData_part000 :: "env \<Rightarrow> AppData" where
  "getInitialData_part000 env =
     (let hydratedDepts =
            map (\<lambda>d. d\<lparr>department_employees :=
                         filter (\<lambda>e. departmentId e = department_id d) initialEmployees\<rparr>)
              defaultDepartments
      in \<lparr>projects = projects (getInitialData env),
          departments = hydratedDepts,
          employees = initialEmployees\<rparr>)"

text \<open>
  \<^verbatim>\<open>part_002\<close> has a smaller seed, with \<^verbatim>\<open>today\<close> read at the call; \<open>today env\<close>
  stands for that reading.
\<close>

definition getInitialData_part002 :: "env \<Rightarrow> AppData" where
  "getInitialData_part002 env =
     \<lparr>projects =
        [\<lparr>project_id = ''p1'', project_name = name_p1_part002,
          tasks =
            [\<lparr>task_id = ''t1'', task_name = name_t1_part002,
              startDate = addDays env (today env) 1, endDate = addDays env (today env) 10,
              color = ''bg-blue-500'', employeeId = '''', progress = 0,
              description = None\<rparr>]\<rparr>],
      departments = [],
      employees = []\<rparr>"

subsection \<open>The local store adapter\<close>

definition writeLocalData :: "AppData \<Rightarrow> state \<Rightarrow> state" where
  "writeLocalData d s =
     s\<lparr>localStorage := (localStorage s)(DATA_KEY \<mapsto> Serialized (AppData_toJSON d))\<rparr>"

text \<open>
  \<^verbatim>\<open>readLocalData\<close> of \<^verbatim>\<open>src/services/apiService.ts\<close>. The four outcomes of the
  source's \<^verbatim>\<open>try\<close> block are the four cases: no text (\<^verbatim>\<open>!rawData\<close>), a text
  \<^verbatim>\<open>JSON.parse\<close> rejects (the \<^verbatim>\<open>catch\<close>), a value that fails the structure check, and
  a value that passes it. A value that passes the check and is not of the shape the
  module writes either throws in the reading loop (a project or a task that is no
  object, a \<^verbatim>\<open>tasks\<close> that is no array), and the \<^verbatim>\<open>catch\<close> answers with the seed, or
  is returned with members of the wrong type, which the typed model cannot hold:
  the model answers both with the \<^verbatim>\<open>catch\<close>. The store never fails in the model.
\<close>

definition readLocalData :: "env \<Rightarrow> state \<Rightarrow> AppData \<times> state" where
  "readLocalData env s =
     (case localStorage s DATA_KEY of
        None \<Rightarrow> (getInitialData env, writeLocalData (getInitialData env) s)
      | Some Empty_text \<Rightarrow> (getInitialData env, writeLocalData (getInitialData env) s)
      | Some Unparseable \<Rightarrow>
          (getInitialData env,
           console_add (Console_error ''Failed to read local data'' SyntaxError) s)
      | Some (Serialized parsedData) \<Rightarrow>
          if \<not> truthy parsedData \<or> \<not> isArray (member parsedData ''projects'') then
            (getInitialData env, writeLocalData (getInitialData env) s)
          else
            (case AppData_ofJSON parsedData of
               None \<Rightarrow>
                 (getInitialData env,
                  console_add (Console_error ''Failed to read local data'' TypeError) s)
             | Some d \<Rightarrow> (d, s)))"

text \<open>
  \<^verbatim>\<open>part_000\<close> reads the same way and then fills in the departments and the employees
  of the seed where the stored value has none.
\<close>

definition falsy :: "json option \<Rightarrow> bool" where
  "falsy v = (case v of None \<Rightarrow> True | Some w \<Rightarrow> \<not> truthy w)"

definition AppData_ofJSON_part000 :: "env \<Rightarrow> json \<Rightarrow> AppData option" where
  "AppData_ofJSON_part000 env j = do {
     ps \<leftarrow> array_ofJSON Project_ofJSON (member j ''projects'');
     ds \<leftarrow> (if falsy (member j ''departments'')
            then Some (departments (getInitialData_part000 env))
            else array_ofJSON Department_ofJSON (member j ''departments''));
     es \<leftarrow> (if falsy (member j ''employees'')
            then Some (employees (getInitialData_part000 env))
            else array_ofJSON Employee_ofJSON (member j ''employees''));
     Some \<lparr>projects = ps, departments = ds, employees = es\<rparr>
   }"

definition readLocalData_part000 :: "env \<Rightarrow> state \<Rightarrow> AppData \<times> state" where
  "readLocalData_part000 env s =
     (case localStorage s DATA_KEY of
        None \<Rightarrow> (getInitialData_part000 env, writeLocalData (getInitialData_part000 env) s)
      | Some Empty_text \<Rightarrow>
          (getInitialData_part000 env, writeLocalData (getInitialData_part000 env) s)
      | Some Unparseable \<Rightarrow>
          (getInitialData_part000 env,
           console_add (Console_error ''Failed to read local data'' SyntaxError) s)
      | Some (Serialized parsedData) \<Rightarrow>
          if \<not> truthy parsedData \<or> \<not> isArray (member parsedData ''projects'') then
            (getInitialData_part000 env, writeLocalData (getInitialData_part000 env) s)
          else
            (case AppData_ofJSON_part000 env parsedData of
               None \<Rightarrow>
                 (getInitialData_part000 env,
                  console_add (Console_error ''Failed to read local data'' TypeError) s)
             | Some d \<Rightarrow> (d, s)))"

text \<open>
  \<^verbatim>\<open>part_002\<close> returns the seed without writing it, has no structure check, and its
  \<^verbatim>\<open>catch\<close> logs nothing. The source returns the parsed value as it is, whatever its
  shape, after turning the dates of the tasks it finds into \<^verbatim>\<open>Date\<close>; the model returns
  a value of the type \<^typ>\<open>AppData\<close>, so it is the source's function on these stores
  only: no record, the empty text, a text \<^verbatim>\<open>JSON.parse\<close> rejects (the seed, by the
  early return or the \<^verbatim>\<open>catch\<close>), and a record that is the serialisation of a dataset,
  which is what \<^verbatim>\<open>writeLocalData\<close> leaves. On any other record (one without
  \<^verbatim>\<open>departments\<close> or \<^verbatim>\<open>employees\<close>, a project without \<^verbatim>\<open>tasks\<close>, a member of another
  type) the source returns a value the type cannot hold, and the operations that
  follow may throw a \<^verbatim>\<open>TypeError\<close>; there the model answers with the seed, and no
  property below is stated of \<^verbatim>\<open>part_002\<close> on such a store.
\<close>

definition readLocalData_part002 :: "env \<Rightarrow> state \<Rightarrow> AppData \<times> state" where
  "readLocalData_part002 env s =
     (case localStorage s DATA_KEY of
        None \<Rightarrow> (getInitialData_part002 env, s)
      | Some Empty_text \<Rightarrow> (getInitialData_part002 env, s)
      | Some Unparseable \<Rightarrow> (getInitialData_part002 env, s)
      | Some (Serialized parsedData) \<Rightarrow>
          (case AppData_ofJSON_part002 parsedData of
             None \<Rightarrow> (getInitialData_part002 env, s)
           | Some d \<Rightarrow> (d, s)))"


subsection \<open>Helpers shared by the operations\<close>

text \<open>
  \<open>remote s\<close> is the test \<^verbatim>\<open>useSupabase && supabase\<close>: the client, when remote mode
  is active. \<open>throwIf\<close> is \<^verbatim>\<open>if (error) throw error\<close> followed by the function's
  \<^verbatim>\<open>return\<close>.
\<close>

definition remote :: "state \<Rightarrow> SupabaseClient option" where
  "remote s = (if useSupabase s then supabase s else None)"

definition throwIf :: "PostgrestError option \<Rightarrow> 'a \<Rightarrow> state \<Rightarrow> 'a promise" where
  "throwIf e v s = (case e of Some err \<Rightarrow> (Inl (Backend err), s) | None \<Rightarrow> (Inr v, s))"

text \<open>
  The text of a number in a template string. \<^verbatim>\<open>Date.now()\<close> is a parameter \<open>now\<close>
  of the functions that read the clock.
\<close>

definition digit :: "nat \<Rightarrow> char" where
  "digit d = ''0123456789'' ! d"

fun decimal :: "nat \<Rightarrow> string" where
  "decimal n = (if n < 10 then [digit n] else decimal (n div 10) @ [digit (n mod 10)])"

declare decimal.simps [simp del]

text \<open>The rows of the backend, nested into the application's shape.\<close>

definition Task_ofRow :: "task_row \<Rightarrow> Task" where
  "Task_ofRow t =
     \<lparr>task_id = task_row_id t, task_name = task_row_name t,
      startDate = dayDate (start_date t), endDate = dayDate (end_date t),
      color = color_col t, employeeId = employee_id_col t,
      progress = progress_col t, description = description_col t\<rparr>"

definition nestTasks :: "project_row list \<Rightarrow> task_row list \<Rightarrow> Project list" where
  "nestTasks projectsData tasksData =
     map (\<lambda>p. \<lparr>project_id = row_id p, project_name = row_name p,
               tasks = map Task_ofRow (filter (\<lambda>t. project_id_col t = row_id p) tasksData)\<rparr>)
       projectsData"

definition Employee_ofRow :: "employee_row \<Rightarrow> Employee" where
  "Employee_ofRow e =
     \<lparr>employee_id = employee_row_id e, employee_name = employee_row_name e,
      departmentId = department_id_col e\<rparr>"

definition nestEmployees :: "department_row list \<Rightarrow> employee_row list \<Rightarrow> Department list" where
  "nestEmployees depts emps =
     map (\<lambda>d. \<lparr>department_id = department_row_id d, department_name = department_row_name d,
               department_employees =
                 map Employee_ofRow
                   (filter (\<lambda>e. department_id_col e = department_row_id d) emps)\<rparr>)
       depts"

text \<open>
  The argument of \<^verbatim>\<open>addTask\<close> (a task without id, colour and progress) and the patch
  of \<^verbatim>\<open>updateTask\<close>: a member of the patch is \<open>None\<close> when the patch has no such key.
  \<^verbatim>\<open>part_002\<close> types the patch \<^verbatim>\<open>Partial<Task>\<close>, which may carry an \<^verbatim>\<open>id\<close> as well.
\<close>

record TaskData =
  data_name :: string
  data_startDate :: date
  data_endDate :: date
  data_employeeId :: string
  data_description :: "string option"

record TaskUpdate =
  upd_name :: "string option"
  upd_startDate :: "date option"
  upd_endDate :: "date option"
  upd_color :: "string option"
  upd_employeeId :: "string option"
  upd_progress :: "int option"
  upd_description :: "string option"

record TaskUpdate_part002 = TaskUpdate +
  upd_id :: "string option"

definition orElse :: "'a option \<Rightarrow> 'a \<Rightarrow> 'a" where
  "orElse v d = (case v of None \<Rightarrow> d | Some x \<Rightarrow> x)"

text \<open>\<^verbatim>\<open>Object.assign(task, taskUpdate)\<close>: each key of the patch overwrites the task's.\<close>

definition Object_assign :: "Task \<Rightarrow> 'a TaskUpdate_scheme \<Rightarrow> Task" where
  "Object_assign t u =
     t\<lparr>task_name := orElse (upd_name u) (task_name t),
       startDate := orElse (upd_startDate u) (startDate t),
       endDate := orElse (upd_endDate u) (endDate t),
       color := orElse (upd_color u) (color t),
       employeeId := orElse (upd_employeeId u) (employeeId t),
       progress := orElse (upd_progress u) (progress t),
       description := (case upd_description u of None \<Rightarrow> description t | Some d \<Rightarrow> Some d)\<rparr>"

definition Object_assign_part002 :: "Task \<Rightarrow> TaskUpdate_part002 \<Rightarrow> Task" where
  "Object_assign_part002 t u = (Object_assign t u)\<lparr>task_id := orElse (upd_id u) (task_id t)\<rparr>"

text \<open>
  The \<^verbatim>\<open>updates\<close> object \<^verbatim>\<open>updateTask\<close> sends to the backend, the same in every
  revision: name, dates and employee are taken when truthy (a date always is),
  progress and description when defined.
\<close>

definition updates_of :: "'a TaskUpdate_scheme \<Rightarrow> json" where
  "updates_of taskUpdate = JObj
     ((case upd_name taskUpdate of
         Some n \<Rightarrow> if n \<noteq> [] then [(''name'', JStr n)] else [] | None \<Rightarrow> [])
      @ (case upd_startDate taskUpdate of
           Some d \<Rightarrow> [(''start_date'', JDay (isoDay d))] | None \<Rightarrow> [])
      @ (case upd_endDate taskUpdate of
           Some d \<Rightarrow> [(''end_date'', JDay (isoDay d))] | None \<Rightarrow> [])
      @ (case upd_employeeId taskUpdate of
           Some e \<Rightarrow> if e \<noteq> [] then [(''employee_id'', JStr e)] else [] | None \<Rightarrow> [])
      @ (case upd_progress taskUpdate of
           Some p \<Rightarrow> [(''progress'', JNum p)] | None \<Rightarrow> [])
      @ (case upd_description taskUpdate of
           Some d \<Rightarrow> [(''description'', JStr d)] | None \<Rightarrow> []))"

text \<open>The row \<^verbatim>\<open>addTask\<close> inserts; an undefined description is left out of it.\<close>

definition insert_of :: "Task \<Rightarrow> string \<Rightarrow> (string \<times> json) list" where
  "insert_of t projectId =
     [(''id'', JStr (task_id t)), (''name'', JStr (task_name t)),
      (''start_date'', JDay (isoDay (startDate t))),
      (''end_date'', JDay (isoDay (endDate t))),
      (''color'', JStr (color t)), (''employee_id'', JStr (employeeId t)),
      (''progress'', JNum 0)]
     @ (case description t of None \<Rightarrow> [] | Some d \<Rightarrow> [(''description'', JStr d)])
     @ [(''project_id'', JStr projectId)]"

subsection \<open>The schema-drift guard (\<^verbatim>\<open>part_002\<close>)\<close>

text \<open>
  A message is a string of bytes; \<open>toLowerCase\<close> lowers the letters A to Z, and leaves
  what is not ASCII as it is. \<open>String_includes s p\<close> is \<^verbatim>\<open>s.includes(p)\<close>.
\<close>

definition toLowerCase_char :: "char \<Rightarrow> char" where
  "toLowerCase_char c =
     (case map_of (zip ''ABCDEFGHIJKLMNOPQRSTUVWXYZ'' ''abcdefghijklmnopqrstuvwxyz'') c of
        Some l \<Rightarrow> l
      | None \<Rightarrow> c)"

definition toLowerCase :: "string \<Rightarrow> string" where
  "toLowerCase s = map toLowerCase_char s"

fun String_includes :: "string \<Rightarrow> string \<Rightarrow> bool" where
  "String_includes [] p = (p = [])"
| "String_includes (c # cs) p = (take (length p) (c # cs) = p \<or> String_includes cs p)"

definition isMissingColumnError :: "PostgrestError option \<Rightarrow> string \<Rightarrow> bool" where
  "isMissingColumnError err columnName =
     (case err of
        None \<Rightarrow> False
      | Some e \<Rightarrow>
          if code e = ''42703'' then True
          else (let msg = toLowerCase (message e); col = toLowerCase columnName
                in String_includes msg ''column'' \<and> String_includes msg col))"

subsection \<open>The operations of \<^verbatim>\<open>part_002\<close>\<close>

definition fetchTasksForProjects :: "project_row list \<Rightarrow> state \<Rightarrow> Project list promise" where
  "fetchTasksForProjects projectsData s =
     (case supabase s of
        None \<Rightarrow> (Inr [], s)
      | Some c \<Rightarrow>
          (let r = select_tasks c [''position'', ''id''] in
           case error r of
             Some tError \<Rightarrow>
               if isMissingColumnError (Some tError) ''position'' then
                 (let s1 = console_add (Console_warn
                             ''Table 'tasks' missing 'position' column. Falling back to 'id'.'') s;
                      f = select_tasks c [''id'']
                  in case error f of
                       Some fError \<Rightarrow> (Inl (Backend fError), s1)
                     | None \<Rightarrow> (Inr (nestTasks projectsData (orEmpty (data f))), s1))
               else (Inl (Backend tError), s)
           | None \<Rightarrow> (Inr (nestTasks projectsData (orEmpty (data r))), s)))"

text \<open>
  \<open>logged\<close> is the \<^verbatim>\<open>catch\<close> of the reads: it logs the error and throws it again.
  \<^verbatim>\<open>getProjects\<close> returns the promise of \<^verbatim>\<open>fetchTasksForProjects\<close> without awaiting it:
  the \<^verbatim>\<open>catch\<close> sees the two throws of the \<^verbatim>\<open>try\<close> block and not the rejection of that
  promise.
\<close>

definition logged :: "string \<Rightarrow> 'a promise \<Rightarrow> 'a promise" where
  "logged label r =
     (case r of
        (Inl err, s) \<Rightarrow> (Inl err, console_add (Console_error label err) s)
      | (Inr v, s) \<Rightarrow> (Inr v, s))"

definition getProjects_part002 :: "env \<Rightarrow> state \<Rightarrow> Project list promise" where
  "getProjects_part002 env s =
     (case remote s of
        Some c \<Rightarrow>
          (let r = select_projects c [''position'', ''created_at''] in
           case error r of
             Some pError \<Rightarrow>
               if isMissingColumnError (Some pError) ''position'' then
                 (let s1 = console_add (Console_warn
                    ''Table 'projects' missing 'position' column. Falling back to 'created_at'.'') s;
                      f = select_projects c [''created_at'']
                  in case error f of
                       Some fError \<Rightarrow>
                         logged ''Supabase fetch error (getProjects):'' (Inl (Backend fError), s1)
                     | None \<Rightarrow> fetchTasksForProjects (orEmpty (data f)) s1)
               else logged ''Supabase fetch error (getProjects):'' (Inl (Backend pError), s)
           | None \<Rightarrow> fetchTasksForProjects (orEmpty (data r)) s)
      | None \<Rightarrow>
          (let (d, s') = readLocalData_part002 env s in (Inr (projects d), s')))"

definition getDepartments_part002 :: "env \<Rightarrow> state \<Rightarrow> Department list promise" where
  "getDepartments_part002 env s =
     (case remote s of
        Some c \<Rightarrow>
          logged ''Supabase fetch error (getDepartments):''
            (let r = select_departments c [''name''] in
             case error r of
               Some err \<Rightarrow> (Inl (Backend err), s)
             | None \<Rightarrow>
                 (let q = select_employees c [] in
                  case error q of
                    Some eError \<Rightarrow> (Inl (Backend eError), s)
                  | None \<Rightarrow> (Inr (nestEmployees (orEmpty (data r)) (orEmpty (data q))), s)))
      | None \<Rightarrow>
          (let (d, s') = readLocalData_part002 env s in (Inr (departments d), s')))"

definition getEmployees_part002 :: "env \<Rightarrow> state \<Rightarrow> Employee list promise" where
  "getEmployees_part002 env s =
     (case remote s of
        Some c \<Rightarrow>
          logged ''Supabase fetch error (getEmployees):''
            (let r = select_employees c [''name''] in
             case error r of
               Some err \<Rightarrow> (Inl (Backend err), s)
             | None \<Rightarrow> (Inr (map Employee_ofRow (orEmpty (data r))), s))
      | None \<Rightarrow>
          (let (d, s') = readLocalData_part002 env s in (Inr (employees d), s')))"

definition addDepartment_part002 :: "env \<Rightarrow> nat \<Rightarrow> string \<Rightarrow> state \<Rightarrow> Department promise" where
  "addDepartment_part002 env now name s =
     (let i = ''dept-'' @ decimal now;
          newDept = \<lparr>department_id = i, department_name = name, department_employees = []\<rparr>
      in case remote s of
           Some c \<Rightarrow>
             throwIf (send c (Insert ''departments'' (JObj [(''id'', JStr i), (''name'', JStr name)])))
               newDept s
         | None \<Rightarrow>
             (let (d, s') = readLocalData_part002 env s
              in (Inr newDept, writeLocalData (d\<lparr>departments := departments d @ [newDept]\<rparr>) s')))"

definition deleteDepartment_part002 :: "env \<Rightarrow> string \<Rightarrow> state \<Rightarrow> unit promise" where
  "deleteDepartment_part002 env i s =
     (case remote s of
        Some c \<Rightarrow> throwIf (send c (Delete ''departments'' i)) () s
      | None \<Rightarrow>
          (let (d, s') = readLocalData_part002 env s
           in (Inr (),
               writeLocalData
                 (d\<lparr>departments := filter (\<lambda>x. department_id x \<noteq> i) (departments d)\<rparr>) s')))"

definition addEmployee_part002 ::
  "env \<Rightarrow> nat \<Rightarrow> string \<Rightarrow> string \<Rightarrow> state \<Rightarrow> Employee promise" where
  "addEmployee_part002 env now name deptId s =
     (let i = ''emp-'' @ decimal now;
          newEmp = \<lparr>employee_id = i, employee_name = name, departmentId = deptId\<rparr>
      in case remote s of
           Some c \<Rightarrow>
             throwIf (send c (Insert ''employees''
                 (JObj [(''id'', JStr i), (''name'', JStr name), (''department_id'', JStr deptId)])))
               newEmp s
         | None \<Rightarrow>
             (let (d, s') = readLocalData_part002 env s
              in (Inr newEmp, writeLocalData (d\<lparr>employees := employees d @ [newEmp]\<rparr>) s')))"

definition deleteEmployee_part002 :: "env \<Rightarrow> string \<Rightarrow> state \<Rightarrow> unit promise" where
  "deleteEmployee_part002 env i s =
     (case remote s of
        Some c \<Rightarrow> throwIf (send c (Delete ''employees'' i)) () s
      | None \<Rightarrow>
          (let (d, s') = readLocalData_part002 env s
           in (Inr (),
               writeLocalData
                 (d\<lparr>employees := filter (\<lambda>e. employee_id e \<noteq> i) (employees d)\<rparr>) s')))"

definition addProject_part002 :: "env \<Rightarrow> nat \<Rightarrow> string \<Rightarrow> state \<Rightarrow> Project promise" where
  "addProject_part002 env now projectName s =
     (let i = ''project-'' @ decimal now;
          newProject = \<lparr>project_id = i, project_name = projectName, tasks = []\<rparr>
      in case remote s of
           Some c \<Rightarrow>
             throwIf (send c (Insert ''projects''
                 (JObj [(''id'', JStr i), (''name'', JStr projectName), (''position'', JNum 999)])))
               newProject s
         | None \<Rightarrow>
             (let (d, s') = readLocalData_part002 env s
              in (Inr newProject, writeLocalData (d\<lparr>projects := projects d @ [newProject]\<rparr>) s')))"

definition updateProject_part002 ::
  "env \<Rightarrow> string \<Rightarrow> string \<Rightarrow> state \<Rightarrow> Project promise" where
  "updateProject_part002 env projectId projectName s =
     (let result = \<lparr>project_id = projectId, project_name = projectName, tasks = []\<rparr>
      in case remote s of
           Some c \<Rightarrow>
             throwIf (send c (Update ''projects'' (JObj [(''name'', JStr projectName)]) projectId))
               result s
         | None \<Rightarrow>
             (let (d, s') = readLocalData_part002 env s
              in (Inr result,
                  writeLocalData
                    (d\<lparr>projects :=
                         update_first (\<lambda>x. project_id x = projectId)
                           (\<lambda>p. p\<lparr>project_name := projectName\<rparr>) (projects d)\<rparr>) s')))"

definition deleteProject_part002 :: "env \<Rightarrow> string \<Rightarrow> state \<Rightarrow> string promise" where
  "deleteProject_part002 env projectId s =
     (case remote s of
        Some c \<Rightarrow> throwIf (send c (Delete ''projects'' projectId)) projectId s
      | None \<Rightarrow>
          (let (d, s') = readLocalData_part002 env s
           in (Inr projectId,
               writeLocalData
                 (d\<lparr>projects := filter (\<lambda>p. project_id p \<noteq> projectId) (projects d)\<rparr>) s')))"

text \<open>
  \<^verbatim>\<open>addTask\<close> of \<^verbatim>\<open>part_002\<close>: the identifier is the prefix and the clock's reading,
  the colour is fixed.
\<close>

definition newTask_part002 :: "nat \<Rightarrow> TaskData \<Rightarrow> Task" where
  "newTask_part002 now taskData =
     (let i = ''task-'' @ decimal now
      in \<lparr>task_id = i, task_name = data_name taskData,
          startDate = data_startDate taskData, endDate = data_endDate taskData,
          color = ''bg-blue-500'', employeeId = data_employeeId taskData,
          progress = 0, description = data_description taskData\<rparr>)"

definition addTask_part002 ::
  "env \<Rightarrow> nat \<Rightarrow> string \<Rightarrow> TaskData \<Rightarrow> state \<Rightarrow> Task promise" where
  "addTask_part002 env now projectId taskData s =
     (let newTask = newTask_part002 now taskData
      in case remote s of
           Some c \<Rightarrow>
             throwIf (send c (Insert ''tasks''
                 (JObj (insert_of newTask projectId @ [(''position'', JNum 999)]))))
               newTask s
         | None \<Rightarrow>
             (let (d, s') = readLocalData_part002 env s
              in (Inr newTask,
                  writeLocalData
                    (d\<lparr>projects :=
                         update_first (\<lambda>x. project_id x = projectId)
                           (\<lambda>p. p\<lparr>tasks := tasks p @ [newTask]\<rparr>) (projects d)\<rparr>) s')))"

text \<open>
  \<^verbatim>\<open>updateTask\<close> of \<^verbatim>\<open>part_002\<close> resolves with the patch and the id, in both modes;
  the value is the pair of them (a key \<^verbatim>\<open>id\<close> of the patch comes after and wins).
\<close>

definition updateTask_part002 ::
  "env \<Rightarrow> string \<Rightarrow> string \<Rightarrow> TaskUpdate_part002 \<Rightarrow> state
    \<Rightarrow> (string \<times> TaskUpdate_part002) promise" where
  "updateTask_part002 env projectId taskId taskUpdate s =
     (let result = (orElse (upd_id taskUpdate) taskId, taskUpdate)
      in case remote s of
           Some c \<Rightarrow> throwIf (send c (Update ''tasks'' (updates_of taskUpdate) taskId)) result s
         | None \<Rightarrow>
             (let (d, s') = readLocalData_part002 env s
              in (Inr result,
                  writeLocalData
                    (d\<lparr>projects :=
                         update_first (\<lambda>x. project_id x = projectId)
                           (\<lambda>p. p\<lparr>tasks :=
                                    update_first (\<lambda>x. task_id x = taskId)
                                      (\<lambda>t. Object_assign_part002 t taskUpdate) (tasks p)\<rparr>)
                           (projects d)\<rparr>) s')))"

definition deleteTask_part002 :: "env \<Rightarrow> string \<Rightarrow> string \<Rightarrow> state \<Rightarrow> string promise" where
  "deleteTask_part002 env projectId taskId s =
     (case remote s of
        Some c \<Rightarrow> throwIf (send c (Delete ''tasks'' taskId)) taskId s
      | None \<Rightarrow>
          (let (d, s') = readLocalData_part002 env s
           in (Inr taskId,
               writeLocalData
                 (d\<lparr>projects :=
                      update_first (\<lambda>x. project_id x = projectId)
                        (\<lambda>p. p\<lparr>tasks := filter (\<lambda>t. task_id t \<noteq> taskId) (tasks p)\<rparr>)
                        (projects d)\<rparr>) s')))"

text \<open>
  The two reorder writes, and the \<^verbatim>\<open>updates\<close> each of them sends: the ids with
  their places in the list. The error of the upsert is looked at only to decide
  whether it is logged; nothing is thrown.
\<close>

definition project_positions :: "Project list \<Rightarrow> json list" where
  "project_positions ps =
     map (\<lambda>(p, i). JObj [(''id'', JStr (project_id p)), (''name'', JStr (project_name p)),
                         (''position'', JNum (int i))])
       (zip ps [0 ..< length ps])"

definition task_positions :: "string \<Rightarrow> Task list \<Rightarrow> json list" where
  "task_positions projectId ts =
     map (\<lambda>(t, i). JObj [(''id'', JStr (task_id t)), (''project_id'', JStr projectId),
                         (''position'', JNum (int i))])
       (zip ts [0 ..< length ts])"

definition updateProjects_part002 ::
  "env \<Rightarrow> Project list \<Rightarrow> state \<Rightarrow> Project list promise" where
  "updateProjects_part002 env ps s =
     (case remote s of
        Some c \<Rightarrow>
          (let updates = project_positions ps;
               err = send c (Upsert ''projects'' updates)
           in case err of
                Some e \<Rightarrow>
                  if \<not> isMissingColumnError (Some e) ''position''
                  then (Inr ps, console_add (Console_error ''Upsert error:'' (Backend e)) s)
                  else (Inr ps, s)
              | None \<Rightarrow> (Inr ps, s))
      | None \<Rightarrow>
          (let (d, s') = readLocalData_part002 env s
           in (Inr ps, writeLocalData (d\<lparr>projects := ps\<rparr>) s')))"

definition updateTaskPositions ::
  "env \<Rightarrow> string \<Rightarrow> Task list \<Rightarrow> state \<Rightarrow> unit promise" where
  "updateTaskPositions env projectId ts s =
     (case remote s of
        Some c \<Rightarrow>
          (let updates = task_positions projectId ts;
               err = send c (Upsert ''tasks'' updates)
           in case err of
                Some e \<Rightarrow>
                  if \<not> isMissingColumnError (Some e) ''position''
                  then (Inr (), console_add (Console_error ''Task Pos Upsert error:'' (Backend e)) s)
                  else (Inr (), s)
              | None \<Rightarrow> (Inr (), s))
      | None \<Rightarrow>
          (let (d, s') = readLocalData_part002 env s
           in (Inr (),
               writeLocalData
                 (d\<lparr>projects :=
                      update_first (\<lambda>x. project_id x = projectId)
                        (\<lambda>p. p\<lparr>tasks := ts\<rparr>) (projects d)\<rparr>) s')))"

text \<open>
  The settings and the connection check. \<^verbatim>\<open>getRemoteSettings\<close> answers an error
  with \<^verbatim>\<open>null\<close> (\<open>None\<close>), \<^verbatim>\<open>saveRemoteSettings\<close> does not look at the error, and
  \<^verbatim>\<open>checkConnectionAndSeed\<close> throws for the code of a missing table only.
\<close>

definition getRemoteSettings_part002 :: "string \<Rightarrow> state \<Rightarrow> json option promise" where
  "getRemoteSettings_part002 k s =
     (case remote s of
        None \<Rightarrow> (Inr None, s)
      | Some c \<Rightarrow>
          (let r = select_setting c k in
           case error r of Some e \<Rightarrow> (Inr None, s) | None \<Rightarrow> (Inr (data r), s)))"

definition saveRemoteSettings_part002 :: "string \<Rightarrow> json \<Rightarrow> state \<Rightarrow> unit promise" where
  "saveRemoteSettings_part002 k v s =
     (case remote s of
        None \<Rightarrow> (Inr (), s)
      | Some c \<Rightarrow>
          (let e = send c (Upsert ''system_settings'' [JObj [(''key'', JStr k), (''value'', v)]])
           in (Inr (), s)))"

definition checkConnectionAndSeed_part002 :: "state \<Rightarrow> unit promise" where
  "checkConnectionAndSeed_part002 s =
     (case remote s of
        None \<Rightarrow> (Inr (), s)
      | Some c \<Rightarrow>
          (case error (select_projects_id_limit1 c) of
             Some e \<Rightarrow> if code e = ''42P01'' then (Inl (Error ''TABLES_MISSING''), s) else (Inr (), s)
           | None \<Rightarrow> (Inr (), s)))"

subsection \<open>Connection bootstrap\<close>

text \<open>
  \<^verbatim>\<open>initSupabase\<close> of \<^verbatim>\<open>src/services/apiService.ts\<close>. \<open>a || b\<close> on strings is \<open>or_string\<close>;
  a string is truthy when it is not empty. The stored configuration is the object
  \<^verbatim>\<open>{url, key}\<close>.
\<close>

definition or_string :: "string \<Rightarrow> string \<Rightarrow> string" where
  "or_string a b = (if a \<noteq> [] then a else b)"

definition setItem :: "string \<Rightarrow> json \<Rightarrow> state \<Rightarrow> state" where
  "setItem k v s = s\<lparr>localStorage := (localStorage s)(k \<mapsto> Serialized v)\<rparr>"

definition removeItem :: "string \<Rightarrow> state \<Rightarrow> state" where
  "removeItem k s = s\<lparr>localStorage := (localStorage s)(k := None)\<rparr>"

definition initSupabase :: "env \<Rightarrow> string \<Rightarrow> string \<Rightarrow> state \<Rightarrow> state" where
  "initSupabase env url key s =
     (let targetUrl = or_string (GLOBAL_SUPABASE_URL env) url;
          targetKey = or_string (GLOBAL_SUPABASE_KEY env) key
      in if targetUrl \<noteq> [] \<and> targetKey \<noteq> [] then
           (case createClient env targetUrl targetKey of
              Inr c \<Rightarrow>
                (let s1 = s\<lparr>supabase := Some c, useSupabase := True\<rparr>
                 in if GLOBAL_SUPABASE_URL env = []
                    then setItem SUPABASE_CONFIG_KEY
                           (JObj [(''url'', JStr targetUrl), (''key'', JStr targetKey)]) s1
                    else console_add (Console_log ''Using Global Supabase Connection'') s1)
            | Inl e \<Rightarrow>
                (console_add (Console_error ''Supabase init failed'' e) s)\<lparr>useSupabase := False\<rparr>)
         else
           (let s1 = s\<lparr>supabase := None, useSupabase := False\<rparr>
            in if GLOBAL_SUPABASE_URL env = [] then removeItem SUPABASE_CONFIG_KEY s1 else s1))"

text \<open>\<^verbatim>\<open>part_000\<close> has the same function, without the message on the console.\<close>

definition initSupabase_part000 :: "env \<Rightarrow> string \<Rightarrow> string \<Rightarrow> state \<Rightarrow> state" where
  "initSupabase_part000 env url key s =
     (let targetUrl = or_string (GLOBAL_SUPABASE_URL env) url;
          targetKey = or_string (GLOBAL_SUPABASE_KEY env) key
      in if targetUrl \<noteq> [] \<and> targetKey \<noteq> [] then
           (case createClient env targetUrl targetKey of
              Inr c \<Rightarrow>
                (let s1 = s\<lparr>supabase := Some c, useSupabase := True\<rparr>
                 in if GLOBAL_SUPABASE_URL env = []
                    then setItem SUPABASE_CONFIG_KEY
                           (JObj [(''url'', JStr targetUrl), (''key'', JStr targetKey)]) s1
                    else s1)
            | Inl e \<Rightarrow>
                (console_add (Console_error ''Supabase init failed'' e) s)\<lparr>useSupabase := False\<rparr>)
         else
           (let s1 = s\<lparr>supabase := None, useSupabase := False\<rparr>
            in if GLOBAL_SUPABASE_URL env = [] then removeItem SUPABASE_CONFIG_KEY s1 else s1))"

definition isSupabaseEnabled :: "state \<Rightarrow> bool" where
  "isSupabaseEnabled s = useSupabase s"

subsection \<open>The operations of \<^verbatim>\<open>src/services/apiService.ts\<close>\<close>

definition getProjects :: "env \<Rightarrow> state \<Rightarrow> Project list promise" where
  "getProjects env s =
     (case remote s of
        Some c \<Rightarrow>
          logged ''Supabase fetch error''
            (let r = select_projects c [''created_at''] in
             case error r of
               Some pError \<Rightarrow> (Inl (Backend pError), s)
             | None \<Rightarrow>
                 (let q = select_tasks c [] in
                  case error q of
                    Some tError \<Rightarrow> (Inl (Backend tError), s)
                  | None \<Rightarrow> (Inr (nestTasks (orEmpty (data r)) (orEmpty (data q))), s)))
      | None \<Rightarrow> (let (d, s') = readLocalData env s in (Inr (projects d), s')))"

text \<open>In this revision the two lists of the organisation are the constants.\<close>

definition getDepartments :: "state \<Rightarrow> Department list promise" where
  "getDepartments s = (Inr initialDepartments, s)"

definition getEmployees :: "state \<Rightarrow> Employee list promise" where
  "getEmployees s = (Inr initialEmployees, s)"

definition addProject :: "env \<Rightarrow> nat \<Rightarrow> string \<Rightarrow> state \<Rightarrow> Project promise" where
  "addProject env now projectName s =
     (let newId = ''project-'' @ decimal now;
          newProject = \<lparr>project_id = newId, project_name = projectName, tasks = []\<rparr>
      in case remote s of
           Some c \<Rightarrow>
             throwIf (send c (Insert ''projects''
                 (JObj [(''id'', JStr newId), (''name'', JStr projectName)])))
               newProject s
         | None \<Rightarrow>
             (let (d, s') = readLocalData env s
              in (Inr newProject, writeLocalData (d\<lparr>projects := projects d @ [newProject]\<rparr>) s')))"



text \<open>
  \<^verbatim>\<open>addTask\<close> draws two random numbers. \<open>pick\<close> is the value of
  \<^verbatim>\<open>Math.floor(Math.random() * colors.length)\<close>, an index of \<^verbatim>\<open>colors\<close>, and \<open>suffix\<close>
  is the text \<^verbatim>\<open>Math.random().toString(36).substr(2, 9)\<close>; the floating-point
  numbers behind them are not modelled.
\<close>

definition colors :: "string list" where
  "colors = [''bg-rose-500'', ''bg-amber-500'', ''bg-lime-500'', ''bg-cyan-500'',
             ''bg-fuchsia-500'', ''bg-orange-500'']"

definition addTask ::
  "env \<Rightarrow> nat \<Rightarrow> nat \<Rightarrow> string \<Rightarrow> string \<Rightarrow> TaskData \<Rightarrow> state \<Rightarrow> Task promise" where
  "addTask env now pick suffix projectId taskData s =
     (let randomColor = colors ! pick;
          newTask = \<lparr>task_id = ''task-'' @ decimal now @ ''-'' @ suffix,
                     task_name = data_name taskData,
                     startDate = data_startDate taskData, endDate = data_endDate taskData,
                     color = randomColor, employeeId = data_employeeId taskData,
                     progress = 0, description = data_description taskData\<rparr>
      in case remote s of
           Some c \<Rightarrow>
             throwIf (send c (Insert ''tasks'' (JObj (insert_of newTask projectId)))) newTask s
         | None \<Rightarrow>
             (let (d, s') = readLocalData env s
              in case find (\<lambda>p. project_id p = projectId) (projects d) of
                   Some project \<Rightarrow>
                     (Inr newTask,
                      writeLocalData
                        (d\<lparr>projects :=
                             update_first (\<lambda>p. project_id p = projectId)
                               (\<lambda>p. p\<lparr>tasks := tasks p @ [newTask]\<rparr>) (projects d)\<rparr>) s')
                 | None \<Rightarrow>
                     (Inl (Error (''Project '' @ projectId @ '' not found in local storage'')),
                      s')))"



text \<open>\<^verbatim>\<open>deleteTask\<close> resolves with \<^verbatim>\<open>{ id: projectId }\<close>; the value is that id.\<close>

definition deleteTask :: "env \<Rightarrow> string \<Rightarrow> string \<Rightarrow> state \<Rightarrow> string promise" where
  "deleteTask env projectId taskId s =
     (case remote s of
        Some c \<Rightarrow> throwIf (send c (Delete ''tasks'' taskId)) projectId s
      | None \<Rightarrow>
          (let (d, s') = readLocalData env s
           in case find (\<lambda>p. project_id p = projectId) (projects d) of
                Some project \<Rightarrow>
                  (Inr projectId,
                   writeLocalData
                     (d\<lparr>projects :=
                          update_first (\<lambda>p. project_id p = projectId)
                            (\<lambda>p. p\<lparr>tasks := filter (\<lambda>t. task_id t \<noteq> taskId) (tasks p)\<rparr>)
                            (projects d)\<rparr>) s')
              | None \<Rightarrow> (Inr projectId, s')))"

definition updateProjects :: "env \<Rightarrow> Project list \<Rightarrow> state \<Rightarrow> Project list promise" where
  "updateProjects env ps s =
     (if \<not> useSupabase s
      then (let (d, s') = readLocalData env s in (Inr ps, writeLocalData (d\<lparr>projects := ps\<rparr>) s'))
      else (Inr ps, s))"

subsection \<open>The operations of \<^verbatim>\<open>part_000\<close> on the organisation\<close>

definition getProjects_part000 :: "env \<Rightarrow> state \<Rightarrow> Project list promise" where
  "getProjects_part000 env s =
     (case remote s of
        Some c \<Rightarrow>
          logged ''Supabase fetch error''
            (let r = select_projects c [''created_at''] in
             case error r of
               Some pError \<Rightarrow> (Inl (Backend pError), s)
             | None \<Rightarrow>
                 (let q = select_tasks c [] in
                  case error q of
                    Some tError \<Rightarrow> (Inl (Backend tError), s)
                  | None \<Rightarrow> (Inr (nestTasks (orEmpty (data r)) (orEmpty (data q))), s)))
      | None \<Rightarrow> (let (d, s') = readLocalData_part000 env s in (Inr (projects d), s')))"

definition getDepartments_part000 :: "env \<Rightarrow> state \<Rightarrow> Department list promise" where
  "getDepartments_part000 env s =
     (case remote s of
        Some c \<Rightarrow>
          (let r = select_departments c [''name''] in
           case error r of
             Some err \<Rightarrow> (Inl (Backend err), s)
           | None \<Rightarrow>
               (let q = select_employees c [] in
                case error q of
                  Some eError \<Rightarrow> (Inl (Backend eError), s)
                | None \<Rightarrow> (Inr (nestEmployees (orEmpty (data r)) (orEmpty (data q))), s)))
      | None \<Rightarrow> (let (d, s') = readLocalData_part000 env s in (Inr (departments d), s')))"

definition getEmployees_part000 :: "env \<Rightarrow> state \<Rightarrow> Employee list promise" where
  "getEmployees_part000 env s =
     (case remote s of
        Some c \<Rightarrow>
          (let r = select_employees c [''name''] in
           case error r of
             Some err \<Rightarrow> (Inl (Backend err), s)
           | None \<Rightarrow> (Inr (map Employee_ofRow (orEmpty (data r))), s))
      | None \<Rightarrow> (let (d, s') = readLocalData_part000 env s in (Inr (employees d), s')))"

definition deleteDepartment_part000 :: "env \<Rightarrow> string \<Rightarrow> state \<Rightarrow> unit promise" where
  "deleteDepartment_part000 env i s =
     (case remote s of
        Some c \<Rightarrow> throwIf (send c (Delete ''departments'' i)) () s
      | None \<Rightarrow>
          (let (d, s') = readLocalData_part000 env s
           in (Inr (),
               writeLocalData
                 (d\<lparr>departments := filter (\<lambda>x. department_id x \<noteq> i) (departments d),
                    employees := filter (\<lambda>e. departmentId e \<noteq> i) (employees d)\<rparr>) s')))"

subsection \<open>Example data\<close>

text \<open>Concrete backends and states, on which the theorems below are instantiated.\<close>

definition some_rows :: "project_row list" where
  "some_rows =
     [\<lparr>row_id = ''p1'', row_name = ''Launch''\<rparr>, \<lparr>row_id = ''p2'', row_name = ''Audit''\<rparr>]"

definition some_task_rows :: "task_row list" where
  "some_task_rows =
     [\<lparr>task_row_id = ''t1'', project_id_col = ''p2'', task_row_name = ''Design'',
       start_date = 19723, end_date = 19727, color_col = ''bg-blue-500'',
       employee_id_col = ''e1'', progress_col = 0, description_col = None\<rparr>]"

definition undefined_column :: PostgrestError where
  "undefined_column =
     \<lparr>code = ''42703'', message = ''column projects.position does not exist''\<rparr>"

text \<open>A backend whose tables have no column \<^verbatim>\<open>position\<close>, and that accepts every write.\<close>

definition client_without_position :: SupabaseClient where
  "client_without_position =
     \<lparr>select_projects = (\<lambda>cols. if ''position'' \<in> set cols
          then \<lparr>data = None, error = Some undefined_column\<rparr>
          else \<lparr>data = Some some_rows, error = None\<rparr>),
      select_tasks = (\<lambda>cols. if ''position'' \<in> set cols
          then \<lparr>data = None, error = Some undefined_column\<rparr>
          else \<lparr>data = Some some_task_rows, error = None\<rparr>),
      select_departments = (\<lambda>cols. \<lparr>data = Some [], error = None\<rparr>),
      select_employees = (\<lambda>cols. \<lparr>data = Some [], error = None\<rparr>),
      select_projects_id_limit1 = \<lparr>data = Some [''p1''], error = None\<rparr>,
      select_setting = (\<lambda>k. \<lparr>data = None, error = None\<rparr>),
      send = (\<lambda>r. None)\<rparr>"

text \<open>
  An environment without compiled-in configuration, in a time zone whose days all
  have 24 hours.
\<close>

definition env0 :: env where
  "env0 = \<lparr>GLOBAL_SUPABASE_URL = '''', GLOBAL_SUPABASE_KEY = '''', today = 0,
           createClient = (\<lambda>u k. Inr client_without_position),
           shift_days = (\<lambda>d n. d + n * msPerDay)\<rparr>"

definition remote_state :: "SupabaseClient \<Rightarrow> state" where
  "remote_state c =
     \<lparr>supabase = Some c, useSupabase = True, localStorage = Map.empty, console = []\<rparr>"

text \<open>A backend that rejects the ordered read of the projects with another error.\<close>

definition other_error :: PostgrestError where
  "other_error = \<lparr>code = ''XX000'', message = ''POSITION is not known''\<rparr>"

definition client_other_error :: SupabaseClient where
  "client_other_error =
     client_without_position\<lparr>select_projects := (\<lambda>cols. if ''position'' \<in> set cols
          then \<lparr>data = None, error = Some other_error\<rparr>
          else \<lparr>data = Some some_rows, error = None\<rparr>)\<rparr>"

text \<open>A backend that answers every request with \<^verbatim>\<open>permission denied\<close>.\<close>

definition permission_denied :: PostgrestError where
  "permission_denied =
     \<lparr>code = ''42501'', message = ''permission denied for table projects''\<rparr>"

definition client_denied :: SupabaseClient where
  "client_denied =
     \<lparr>select_projects = (\<lambda>cols. \<lparr>data = None, error = Some permission_denied\<rparr>),
      select_tasks = (\<lambda>cols. \<lparr>data = None, error = Some permission_denied\<rparr>),
      select_departments = (\<lambda>cols. \<lparr>data = None, error = Some permission_denied\<rparr>),
      select_employees = (\<lambda>cols. \<lparr>data = None, error = Some permission_denied\<rparr>),
      select_projects_id_limit1 = \<lparr>data = None, error = Some permission_denied\<rparr>,
      select_setting = (\<lambda>k. \<lparr>data = None, error = Some permission_denied\<rparr>),
      send = (\<lambda>r. Some permission_denied)\<rparr>"

text \<open>A backend without the column \<^verbatim>\<open>position\<close> that denies the reads of the tasks.\<close>

definition client_tasks_denied :: SupabaseClient where
  "client_tasks_denied =
     client_without_position
       \<lparr>select_tasks := (\<lambda>cols. \<lparr>data = None, error = Some permission_denied\<rparr>)\<rparr>"

definition two_projects :: "Project list" where
  "two_projects =
     [\<lparr>project_id = ''p2'', project_name = ''Audit'', tasks = []\<rparr>,
      \<lparr>project_id = ''p1'', project_name = ''Launch'', tasks = []\<rparr>]"

text \<open>A state in local mode over a given store, and a dataset with one department.\<close>

definition local_state :: "storage \<Rightarrow> state" where
  "local_state ls = \<lparr>supabase = None, useSupabase = False, localStorage = ls, console = []\<rparr>"

definition staffed :: AppData where
  "staffed =
     \<lparr>projects = [],
      departments = [\<lparr>department_id = ''d1'', department_name = ''Design'',
                      department_employees = []\<rparr>],
      employees = [\<lparr>employee_id = ''e1'', employee_name = ''Ada'', departmentId = ''d1''\<rparr>]\<rparr>"

definition design_task :: TaskData where
  "design_task = \<lparr>data_name = ''Design'', data_startDate = 1704067200000,
                  data_endDate = 1704412800000, data_employeeId = ''e1'',
                  data_description = None\<rparr>"

text \<open>An environment with a compiled-in configuration.\<close>

definition env_global :: env where
  "env_global = \<lparr>GLOBAL_SUPABASE_URL = ''https://example.supabase.co'',
                 GLOBAL_SUPABASE_KEY = ''anon-key'', today = 0,
                 createClient = (\<lambda>u k. Inr client_without_position),
                 shift_days = (\<lambda>d n. d + n * msPerDay)\<rparr>"



definition only_progress_part002 :: "int \<Rightarrow> TaskUpdate_part002" where
  "only_progress_part002 n =
     \<lparr>upd_name = None, upd_startDate = None, upd_endDate = None, upd_color = None,
      upd_employeeId = None, upd_progress = Some n, upd_description = None, upd_id = None\<rparr>"



section \<open>Properties\<close>

subsection \<open>Reading back what was written\<close>

lemma those_map_roundtrip:
  "(\<And>x. g (f x) = Some x) \<Longrightarrow> those_map g (map f xs) = Some xs"
  by (induction xs) simp_all

lemma Task_roundtrip: "Task_ofJSON (Task_toJSON t) = Some t"
  by (cases "description t") (simp_all add: Task_ofJSON_def Task_toJSON_def)

lemma Project_roundtrip: "Project_ofJSON (Project_toJSON p) = Some p"
  by (simp add: Project_ofJSON_def Project_toJSON_def tasks_ofJSON_def
      those_map_roundtrip Task_roundtrip)

lemma Employee_roundtrip: "Employee_ofJSON (Employee_toJSON e) = Some e"
  by (simp add: Employee_ofJSON_def Employee_toJSON_def)

lemma Department_roundtrip: "Department_ofJSON (Department_toJSON d) = Some d"
  by (simp add: Department_ofJSON_def Department_toJSON_def those_map_roundtrip
      Employee_roundtrip)

lemma AppData_roundtrip: "AppData_ofJSON (AppData_toJSON a) = Some a"
  by (simp add: AppData_ofJSON_def AppData_toJSON_def those_map_roundtrip
      Project_roundtrip Department_roundtrip Employee_roundtrip)

lemma Project_part002_roundtrip: "Project_ofJSON_part002 (Project_toJSON p) = Some p"
  by (simp add: Project_ofJSON_part002_def Project_toJSON_def those_map_roundtrip
      Task_roundtrip)

lemma AppData_part002_roundtrip: "AppData_ofJSON_part002 (AppData_toJSON a) = Some a"
  by (simp add: AppData_ofJSON_part002_def AppData_toJSON_def those_map_roundtrip
      Project_part002_roundtrip Department_roundtrip Employee_roundtrip)

subsection \<open>The schema-drift guard\<close>

lemma isMissingColumnError_position:
  "isMissingColumnError (Some e) ''position'' \<longleftrightarrow>
     code e = ''42703'' \<or>
     (String_includes (toLowerCase (message e)) ''column'' \<and>
      String_includes (toLowerCase (message e)) ''position'')"
  by (simp add: isMissingColumnError_def toLowerCase_def toLowerCase_char_def Let_def)

lemma logged_fst: "fst (logged l r) = fst r"
  by (cases r) (simp add: logged_def split: sum.splits)

lemma remote_supabase: "remote s = Some c \<Longrightarrow> supabase s = Some c"
  by (simp add: remote_def split: if_splits)

lemma supabase_console_add: "supabase (console_add l s) = supabase s"
  by (simp add: console_add_def)

lemma fetchTasksForProjects_fst:
  assumes "supabase s = Some c"
    and "error (select_tasks c [''position'', ''id'']) = None \<or>
         (\<exists>t. error (select_tasks c [''position'', ''id'']) = Some t \<and>
              isMissingColumnError (Some t) ''position'' \<and>
              error (select_tasks c [''id'']) = None)"
  shows "fst (fetchTasksForProjects rows s) =
         Inr (nestTasks rows (orEmpty (data
           (if error (select_tasks c [''position'', ''id'']) = None
            then select_tasks c [''position'', ''id''] else select_tasks c [''id'']))))"
  using assms by (auto simp add: fetchTasksForProjects_def Let_def)

lemma map_project_id_nestTasks: "map project_id (nestTasks rows ts) = map row_id rows"
  by (simp add: nestTasks_def comp_def)

lemma remote_remote_state: "remote (remote_state c) = Some c"
  by (simp add: remote_def remote_state_def)

text \<open>
  C1, as amended. In remote mode, let the backend reject the read of the projects
  ordered by \<^verbatim>\<open>position\<close> with an error \<open>e\<close> that has the code \<^verbatim>\<open>42703\<close> or whose
  message contains, in any case of the letters, both the word \<^verbatim>\<open>column\<close> and the
  name \<^verbatim>\<open>position\<close>. If the read ordered by \<^verbatim>\<open>created_at\<close> succeeds and the tasks
  can be read (ordered by \<^verbatim>\<open>position\<close>, or by \<^verbatim>\<open>id\<close> after the same kind of error),
  then \<^verbatim>\<open>getProjects\<close> of \<^verbatim>\<open>part_002\<close> does not reject: it resolves with the rows of
  the read ordered by \<^verbatim>\<open>created_at\<close>, every one of them and in that order, each with
  its tasks.
\<close>

theorem getProjects_part002_falls_back:
  assumes "remote s = Some c"
    and "error (select_projects c [''position'', ''created_at'']) = Some e"
    and "code e = ''42703'' \<or>
         (String_includes (toLowerCase (message e)) ''column'' \<and>
          String_includes (toLowerCase (message e)) ''position'')"
    and "error (select_projects c [''created_at'']) = None"
    and "error (select_tasks c [''position'', ''id'']) = None \<or>
         (\<exists>t. error (select_tasks c [''position'', ''id'']) = Some t \<and>
              isMissingColumnError (Some t) ''position'' \<and>
              error (select_tasks c [''id'']) = None)"
  shows "\<exists>ps. fst (getProjects_part002 env s) = Inr ps \<and>
           ps = nestTasks (orEmpty (data (select_projects c [''created_at''])))
                  (orEmpty (data
                    (if error (select_tasks c [''position'', ''id'']) = None
                     then select_tasks c [''position'', ''id'']
                     else select_tasks c [''id'']))) \<and>
           map project_id ps = map row_id (orEmpty (data (select_projects c [''created_at''])))"
proof -
  have sup: "supabase s = Some c"
    using assms(1) by (rule remote_supabase)
  have miss: "isMissingColumnError (Some e) ''position''"
    using assms(3) by (simp add: isMissingColumnError_position)
  let ?w = "Console_warn
      ''Table 'projects' missing 'position' column. Falling back to 'created_at'.''"
  have "fst (getProjects_part002 env s) =
        fst (fetchTasksForProjects (orEmpty (data (select_projects c [''created_at''])))
               (console_add ?w s))"
    using assms(1,2,4) miss by (simp add: getProjects_part002_def Let_def logged_fst)
  also have "\<dots> = Inr (nestTasks (orEmpty (data (select_projects c [''created_at''])))
                  (orEmpty (data
                    (if error (select_tasks c [''position'', ''id'']) = None
                     then select_tasks c [''position'', ''id'']
                     else select_tasks c [''id'']))))"
    by (rule fetchTasksForProjects_fst [OF _ assms(5)]) (simp add: supabase_console_add sup)
  finally show ?thesis
    by (simp add: map_project_id_nestTasks)
qed

theorem getProjects_part002_falls_back_witness:
  "fst (getProjects_part002 env0 (remote_state client_without_position)) =
     Inr [\<lparr>project_id = ''p1'', project_name = ''Launch'', tasks = []\<rparr>,
          \<lparr>project_id = ''p2'', project_name = ''Audit'',
           tasks = [\<lparr>task_id = ''t1'', task_name = ''Design'',
                     startDate = 1704067200000, endDate = 1704412800000,
                     color = ''bg-blue-500'', employeeId = ''e1'', progress = 0,
                     description = None\<rparr>]\<rparr>]"
  using getProjects_part002_falls_back [of "remote_state client_without_position"
      client_without_position undefined_column env0]
  by (simp add: remote_remote_state client_without_position_def undefined_column_def
      isMissingColumnError_position some_rows_def some_task_rows_def nestTasks_def
      Task_ofRow_def dayDate_def msPerDay_def orEmpty_def)

text \<open>
  The claim as it is written takes a message that names the column for the sign of
  the missing column. The message of \<open>other_error\<close> names \<^verbatim>\<open>position\<close> and has not
  the word \<^verbatim>\<open>column\<close>: the read ordered by \<^verbatim>\<open>created_at\<close> would succeed, and
  \<^verbatim>\<open>getProjects\<close> rejects with that error.
\<close>

theorem getProjects_part002_counterexample:
  "String_includes (toLowerCase (message other_error)) (toLowerCase ''position'') \<and>
   error (select_projects client_other_error [''position'', ''created_at'']) = Some other_error \<and>
   error (select_projects client_other_error [''created_at'']) = None \<and>
   fst (getProjects_part002 env0 (remote_state client_other_error)) = Inl (Backend other_error)"
  by (simp add: other_error_def client_other_error_def client_without_position_def
      toLowerCase_def toLowerCase_char_def getProjects_part002_def remote_def remote_state_def
      isMissingColumnError_def logged_def Let_def)

subsection \<open>Errors of the backend in remote mode\<close>

lemma permission_denied_not_missing:
  "\<not> isMissingColumnError (Some permission_denied) ''position''"
  by (simp add: isMissingColumnError_position toLowerCase_def toLowerCase_char_def
      permission_denied_def)

lemma code_permission_denied: "code permission_denied = ''42501''"
  by (simp add: permission_denied_def)

lemma undefined_column_missing:
  "isMissingColumnError (Some undefined_column) ''position''"
  by (simp add: isMissingColumnError_position toLowerCase_def toLowerCase_char_def
      undefined_column_def)

lemma throwIf_Some: "fst (throwIf (Some e) v s) = Inl (Backend e)"
  by (simp add: throwIf_def)

lemma getProjects_part002_rejects:
  assumes r: "remote s = Some c"
  shows
    "(\<forall>e. error (select_projects c [''position'', ''created_at'']) = Some e \<longrightarrow>
          \<not> isMissingColumnError (Some e) ''position'' \<longrightarrow>
          fst (getProjects_part002 env s) = Inl (Backend e)) \<and>
     (\<forall>e f. error (select_projects c [''position'', ''created_at'']) = Some e \<longrightarrow>
          isMissingColumnError (Some e) ''position'' \<longrightarrow>
          error (select_projects c [''created_at'']) = Some f \<longrightarrow>
          fst (getProjects_part002 env s) = Inl (Backend f)) \<and>
     (\<forall>t. (error (select_projects c [''position'', ''created_at'']) = None \<or>
           (\<exists>e. error (select_projects c [''position'', ''created_at'']) = Some e \<and>
                isMissingColumnError (Some e) ''position'' \<and>
                error (select_projects c [''created_at'']) = None)) \<longrightarrow>
          error (select_tasks c [''position'', ''id'']) = Some t \<longrightarrow>
          \<not> isMissingColumnError (Some t) ''position'' \<longrightarrow>
          fst (getProjects_part002 env s) = Inl (Backend t)) \<and>
     (\<forall>t f. (error (select_projects c [''position'', ''created_at'']) = None \<or>
           (\<exists>e. error (select_projects c [''position'', ''created_at'']) = Some e \<and>
                isMissingColumnError (Some e) ''position'' \<and>
                error (select_projects c [''created_at'']) = None)) \<longrightarrow>
          error (select_tasks c [''position'', ''id'']) = Some t \<longrightarrow>
          isMissingColumnError (Some t) ''position'' \<longrightarrow>
          error (select_tasks c [''id'']) = Some f \<longrightarrow>
          fst (getProjects_part002 env s) = Inl (Backend f))"
proof -
  note defs = getProjects_part002_def fetchTasksForProjects_def Let_def logged_fst
      supabase_console_add
  have a: "fst (getProjects_part002 env s) = Inl (Backend e)"
    if "error (select_projects c [''position'', ''created_at'']) = Some e"
      and "\<not> isMissingColumnError (Some e) ''position''" for e
    using r remote_supabase [OF r] that by (simp add: defs)
  have b: "fst (getProjects_part002 env s) = Inl (Backend f)"
    if "error (select_projects c [''position'', ''created_at'']) = Some e"
      and "isMissingColumnError (Some e) ''position''"
      and "error (select_projects c [''created_at'']) = Some f" for e f
    using r remote_supabase [OF r] that by (simp add: defs)
  have c1: "fst (getProjects_part002 env s) = Inl (Backend t)"
    if "error (select_projects c [''position'', ''created_at'']) = None"
      and "error (select_tasks c [''position'', ''id'']) = Some t"
      and "\<not> isMissingColumnError (Some t) ''position''" for t
    using r remote_supabase [OF r] that by (simp add: defs)
  have c2: "fst (getProjects_part002 env s) = Inl (Backend t)"
    if "error (select_projects c [''position'', ''created_at'']) = Some e"
      and "isMissingColumnError (Some e) ''position''"
      and "error (select_projects c [''created_at'']) = None"
      and "error (select_tasks c [''position'', ''id'']) = Some t"
      and "\<not> isMissingColumnError (Some t) ''position''" for e t
    using r remote_supabase [OF r] that by (simp add: defs)
  have d1: "fst (getProjects_part002 env s) = Inl (Backend f)"
    if "error (select_projects c [''position'', ''created_at'']) = None"
      and "error (select_tasks c [''position'', ''id'']) = Some t"
      and "isMissingColumnError (Some t) ''position''"
      and "error (select_tasks c [''id'']) = Some f" for t f
    using r remote_supabase [OF r] that by (simp add: defs)
  have d2: "fst (getProjects_part002 env s) = Inl (Backend f)"
    if "error (select_projects c [''position'', ''created_at'']) = Some e"
      and "isMissingColumnError (Some e) ''position''"
      and "error (select_projects c [''created_at'']) = None"
      and "error (select_tasks c [''position'', ''id'']) = Some t"
      and "isMissingColumnError (Some t) ''position''"
      and "error (select_tasks c [''id'']) = Some f" for e t f
    using r remote_supabase [OF r] that by (simp add: defs)
  show ?thesis
    apply (intro conjI allI impI)
    subgoal by (rule a)
    subgoal by (rule b)
    subgoal using c1 c2 by blast
    subgoal using d1 d2 by blast
    done
qed

lemma getDepartments_part002_rejects:
  assumes r: "remote s = Some c"
  shows
    "(\<forall>e. error (select_departments c [''name'']) = Some e \<longrightarrow>
          fst (getDepartments_part002 env s) = Inl (Backend e)) \<and>
     (\<forall>e. error (select_departments c [''name'']) = None \<longrightarrow>
          error (select_employees c []) = Some e \<longrightarrow>
          fst (getDepartments_part002 env s) = Inl (Backend e)) \<and>
     (\<forall>e. error (select_employees c [''name'']) = Some e \<longrightarrow>
          fst (getEmployees_part002 env s) = Inl (Backend e))"
  using r
  by (simp add: getDepartments_part002_def getEmployees_part002_def Let_def logged_fst)

lemma writes_reject_part002:
  assumes r: "remote s = Some c"
  shows
    "(\<forall>e. send c (Insert ''departments''
                (JObj [(''id'', JStr (''dept-'' @ decimal now)), (''name'', JStr name)])) = Some e \<longrightarrow>
          fst (addDepartment_part002 env now name s) = Inl (Backend e)) \<and>
     (\<forall>e. send c (Delete ''departments'' i) = Some e \<longrightarrow>
          fst (deleteDepartment_part002 env i s) = Inl (Backend e)) \<and>
     (\<forall>e. send c (Insert ''employees''
                (JObj [(''id'', JStr (''emp-'' @ decimal now)), (''name'', JStr name),
                       (''department_id'', JStr deptId)])) = Some e \<longrightarrow>
          fst (addEmployee_part002 env now name deptId s) = Inl (Backend e)) \<and>
     (\<forall>e. send c (Delete ''employees'' i) = Some e \<longrightarrow>
          fst (deleteEmployee_part002 env i s) = Inl (Backend e)) \<and>
     (\<forall>e. send c (Insert ''projects''
                (JObj [(''id'', JStr (''project-'' @ decimal now)), (''name'', JStr name),
                       (''position'', JNum 999)])) = Some e \<longrightarrow>
          fst (addProject_part002 env now name s) = Inl (Backend e)) \<and>
     (\<forall>e. send c (Update ''projects'' (JObj [(''name'', JStr name)]) projectId) = Some e \<longrightarrow>
          fst (updateProject_part002 env projectId name s) = Inl (Backend e)) \<and>
     (\<forall>e. send c (Delete ''projects'' projectId) = Some e \<longrightarrow>
          fst (deleteProject_part002 env projectId s) = Inl (Backend e)) \<and>
     (\<forall>e. send c (Insert ''tasks''
                (JObj (insert_of (newTask_part002 now taskData) projectId
                       @ [(''position'', JNum 999)]))) = Some e \<longrightarrow>
          fst (addTask_part002 env now projectId taskData s) = Inl (Backend e)) \<and>
     (\<forall>e. send c (Update ''tasks'' (updates_of taskUpdate) taskId) = Some e \<longrightarrow>
          fst (updateTask_part002 env projectId taskId taskUpdate s) = Inl (Backend e)) \<and>
     (\<forall>e. send c (Delete ''tasks'' taskId) = Some e \<longrightarrow>
          fst (deleteTask_part002 env projectId taskId s) = Inl (Backend e))"
  using r
  by (simp add: addDepartment_part002_def deleteDepartment_part002_def
      addEmployee_part002_def deleteEmployee_part002_def addProject_part002_def
      updateProject_part002_def deleteProject_part002_def addTask_part002_def
      updateTask_part002_def deleteTask_part002_def Let_def throwIf_Some)

lemma reorder_resolves_part002:
  assumes r: "remote s = Some c"
  shows
    "(\<forall>e. send c (Upsert ''projects'' (project_positions ps)) = Some e \<longrightarrow>
          \<not> isMissingColumnError (Some e) ''position'' \<longrightarrow>
          updateProjects_part002 env ps s =
            (Inr ps, console_add (Console_error ''Upsert error:'' (Backend e)) s)) \<and>
     (\<forall>e. send c (Upsert ''projects'' (project_positions ps)) = Some e \<longrightarrow>
          isMissingColumnError (Some e) ''position'' \<longrightarrow>
          updateProjects_part002 env ps s = (Inr ps, s)) \<and>
     (send c (Upsert ''projects'' (project_positions ps)) = None \<longrightarrow>
          updateProjects_part002 env ps s = (Inr ps, s)) \<and>
     (\<forall>e. send c (Upsert ''tasks'' (task_positions projectId ts)) = Some e \<longrightarrow>
          \<not> isMissingColumnError (Some e) ''position'' \<longrightarrow>
          updateTaskPositions env projectId ts s =
            (Inr (), console_add (Console_error ''Task Pos Upsert error:'' (Backend e)) s)) \<and>
     (\<forall>e. send c (Upsert ''tasks'' (task_positions projectId ts)) = Some e \<longrightarrow>
          isMissingColumnError (Some e) ''position'' \<longrightarrow>
          updateTaskPositions env projectId ts s = (Inr (), s)) \<and>
     (send c (Upsert ''tasks'' (task_positions projectId ts)) = None \<longrightarrow>
          updateTaskPositions env projectId ts s = (Inr (), s)) \<and>
     saveRemoteSettings_part002 k v s = (Inr (), s)"
  using r
  by (simp add: updateProjects_part002_def updateTaskPositions_def
      saveRemoteSettings_part002_def Let_def)

lemma settings_resolve_part002:
  assumes r: "remote s = Some c"
  shows
    "(\<forall>e. error (select_setting c k) = Some e \<longrightarrow>
          getRemoteSettings_part002 k s = (Inr None, s)) \<and>
     (\<forall>e. error (select_projects_id_limit1 c) = Some e \<longrightarrow>
          checkConnectionAndSeed_part002 s =
            (if code e = ''42P01'' then Inl (Error ''TABLES_MISSING'') else Inr (), s))"
  using r
  by (simp add: getRemoteSettings_part002_def checkConnectionAndSeed_part002_def Let_def)

text \<open>
  C2, as amended. In remote mode every read and every write of one entity of
  \<^verbatim>\<open>part_002\<close> rejects with the error the backend gives, unchanged, at each of its
  requests. \<^verbatim>\<open>getProjects\<close>: the error of the read ordered by \<^verbatim>\<open>position\<close> when it is
  not of the missing-column class, the error of the retried read whatever its
  class, and likewise for the two reads of the tasks once the projects are read.
  \<^verbatim>\<open>getDepartments\<close>: the error of the read of the departments and that of the
  employees. \<^verbatim>\<open>getEmployees\<close>, and the ten writes \<^verbatim>\<open>addDepartment\<close>, \<^verbatim>\<open>deleteDepartment\<close>,
  \<^verbatim>\<open>addEmployee\<close>, \<^verbatim>\<open>deleteEmployee\<close>, \<^verbatim>\<open>addProject\<close>, \<^verbatim>\<open>updateProject\<close>, \<^verbatim>\<open>deleteProject\<close>,
  \<^verbatim>\<open>addTask\<close>, \<^verbatim>\<open>updateTask\<close>, \<^verbatim>\<open>deleteTask\<close>: the error of their one request, of any
  class. The two reorder writes \<^verbatim>\<open>updateProjects\<close> and \<^verbatim>\<open>updateTaskPositions\<close> never
  reject: they resolve with the state unchanged when the upsert succeeds or fails
  for the missing column, and with the error added to the console when it fails
  otherwise. \<^verbatim>\<open>saveRemoteSettings\<close> resolves and changes nothing. \<^verbatim>\<open>getRemoteSettings\<close>
  answers an error of its read with \<^verbatim>\<open>null\<close>, and \<^verbatim>\<open>checkConnectionAndSeed\<close> resolves on
  an error of its read, except that for the code \<^verbatim>\<open>42P01\<close> it throws an error of its
  own, \<^verbatim>\<open>TABLES_MISSING\<close>.
\<close>

theorem remote_errors_part002:
  assumes "remote s = Some c"
  shows
    "((\<forall>e. error (select_projects c [''position'', ''created_at'']) = Some e \<longrightarrow>
          \<not> isMissingColumnError (Some e) ''position'' \<longrightarrow>
          fst (getProjects_part002 env s) = Inl (Backend e)) \<and>
     (\<forall>e f. error (select_projects c [''position'', ''created_at'']) = Some e \<longrightarrow>
          isMissingColumnError (Some e) ''position'' \<longrightarrow>
          error (select_projects c [''created_at'']) = Some f \<longrightarrow>
          fst (getProjects_part002 env s) = Inl (Backend f)) \<and>
     (\<forall>t. (error (select_projects c [''position'', ''created_at'']) = None \<or>
           (\<exists>e. error (select_projects c [''position'', ''created_at'']) = Some e \<and>
                isMissingColumnError (Some e) ''position'' \<and>
                error (select_projects c [''created_at'']) = None)) \<longrightarrow>
          error (select_tasks c [''position'', ''id'']) = Some t \<longrightarrow>
          \<not> isMissingColumnError (Some t) ''position'' \<longrightarrow>
          fst (getProjects_part002 env s) = Inl (Backend t)) \<and>
     (\<forall>t f. (error (select_projects c [''position'', ''created_at'']) = None \<or>
           (\<exists>e. error (select_projects c [''position'', ''created_at'']) = Some e \<and>
                isMissingColumnError (Some e) ''position'' \<and>
                error (select_projects c [''created_at'']) = None)) \<longrightarrow>
          error (select_tasks c [''position'', ''id'']) = Some t \<longrightarrow>
          isMissingColumnError (Some t) ''position'' \<longrightarrow>
          error (select_tasks c [''id'']) = Some f \<longrightarrow>
          fst (getProjects_part002 env s) = Inl (Backend f))) \<and>
    ((\<forall>e. error (select_departments c [''name'']) = Some e \<longrightarrow>
          fst (getDepartments_part002 env s) = Inl (Backend e)) \<and>
     (\<forall>e. error (select_departments c [''name'']) = None \<longrightarrow>
          error (select_employees c []) = Some e \<longrightarrow>
          fst (getDepartments_part002 env s) = Inl (Backend e)) \<and>
     (\<forall>e. error (select_employees c [''name'']) = Some e \<longrightarrow>
          fst (getEmployees_part002 env s) = Inl (Backend e))) \<and>
    ((\<forall>e. send c (Insert ''departments''
                (JObj [(''id'', JStr (''dept-'' @ decimal now)), (''name'', JStr name)])) = Some e \<longrightarrow>
          fst (addDepartment_part002 env now name s) = Inl (Backend e)) \<and>
     (\<forall>e. send c (Delete ''departments'' i) = Some e \<longrightarrow>
          fst (deleteDepartment_part002 env i s) = Inl (Backend e)) \<and>
     (\<forall>e. send c (Insert ''employees''
                (JObj [(''id'', JStr (''emp-'' @ decimal now)), (''name'', JStr name),
                       (''department_id'', JStr deptId)])) = Some e \<longrightarrow>
          fst (addEmployee_part002 env now name deptId s) = Inl (Backend e)) \<and>
     (\<forall>e. send c (Delete ''employees'' i) = Some e \<longrightarrow>
          fst (deleteEmployee_part002 env i s) = Inl (Backend e)) \<and>
     (\<forall>e. send c (Insert ''projects''
                (JObj [(''id'', JStr (''project-'' @ decimal now)), (''name'', JStr name),
                       (''position'', JNum 999)])) = Some e \<longrightarrow>
          fst (addProject_part002 env now name s) = Inl (Backend e)) \<and>
     (\<forall>e. send c (Update ''projects'' (JObj [(''name'', JStr name)]) projectId) = Some e \<longrightarrow>
          fst (updateProject_part002 env projectId name s) = Inl (Backend e)) \<and>
     (\<forall>e. send c (Delete ''projects'' projectId) = Some e \<longrightarrow>
          fst (deleteProject_part002 env projectId s) = Inl (Backend e)) \<and>
     (\<forall>e. send c (Insert ''tasks''
                (JObj (insert_of (newTask_part002 now taskData) projectId
                       @ [(''position'', JNum 999)]))) = Some e \<longrightarrow>
          fst (addTask_part002 env now projectId taskData s) = Inl (Backend e)) \<and>
     (\<forall>e. send c (Update ''tasks'' (updates_of taskUpdate) taskId) = Some e \<longrightarrow>
          fst (updateTask_part002 env projectId taskId taskUpdate s) = Inl (Backend e)) \<and>
     (\<forall>e. send c (Delete ''tasks'' taskId) = Some e \<longrightarrow>
          fst (deleteTask_part002 env projectId taskId s) = Inl (Backend e))) \<and>
    ((\<forall>e. send c (Upsert ''projects'' (project_positions ps)) = Some e \<longrightarrow>
          \<not> isMissingColumnError (Some e) ''position'' \<longrightarrow>
          updateProjects_part002 env ps s =
            (Inr ps, console_add (Console_error ''Upsert error:'' (Backend e)) s)) \<and>
     (\<forall>e. send c (Upsert ''projects'' (project_positions ps)) = Some e \<longrightarrow>
          isMissingColumnError (Some e) ''position'' \<longrightarrow>
          updateProjects_part002 env ps s = (Inr ps, s)) \<and>
     (send c (Upsert ''projects'' (project_positions ps)) = None \<longrightarrow>
          updateProjects_part002 env ps s = (Inr ps, s)) \<and>
     (\<forall>e. send c (Upsert ''tasks'' (task_positions projectId ts)) = Some e \<longrightarrow>
          \<not> isMissingColumnError (Some e) ''position'' \<longrightarrow>
          updateTaskPositions env projectId ts s =
            (Inr (), console_add (Console_error ''Task Pos Upsert error:'' (Backend e)) s)) \<and>
     (\<forall>e. send c (Upsert ''tasks'' (task_positions projectId ts)) = Some e \<longrightarrow>
          isMissingColumnError (Some e) ''position'' \<longrightarrow>
          updateTaskPositions env projectId ts s = (Inr (), s)) \<and>
     (send c (Upsert ''tasks'' (task_positions projectId ts)) = None \<longrightarrow>
          updateTaskPositions env projectId ts s = (Inr (), s)) \<and>
     saveRemoteSettings_part002 k v s = (Inr (), s)) \<and>
    ((\<forall>e. error (select_setting c k) = Some e \<longrightarrow>
          getRemoteSettings_part002 k s = (Inr None, s)) \<and>
     (\<forall>e. error (select_projects_id_limit1 c) = Some e \<longrightarrow>
          checkConnectionAndSeed_part002 s =
            (if code e = ''42P01'' then Inl (Error ''TABLES_MISSING'') else Inr (), s)))"
  by (rule conjI [OF getProjects_part002_rejects [OF assms]
        conjI [OF getDepartments_part002_rejects [OF assms]
          conjI [OF writes_reject_part002 [OF assms]
            conjI [OF reorder_resolves_part002 [OF assms]
              settings_resolve_part002 [OF assms]]]]])

theorem remote_errors_part002_witness:
  "fst (getProjects_part002 env0 (remote_state client_denied)) = Inl (Backend permission_denied) \<and>
   fst (getProjects_part002 env0 (remote_state client_tasks_denied))
     = Inl (Backend permission_denied) \<and>
   fst (getDepartments_part002 env0 (remote_state client_denied))
     = Inl (Backend permission_denied) \<and>
   fst (getEmployees_part002 env0 (remote_state client_denied)) = Inl (Backend permission_denied) \<and>
   fst (addProject_part002 env0 5 ''Launch'' (remote_state client_denied))
     = Inl (Backend permission_denied) \<and>
   fst (addTask_part002 env0 5 ''p1'' design_task (remote_state client_denied))
     = Inl (Backend permission_denied) \<and>
   fst (updateTask_part002 env0 ''p1'' ''t1'' (only_progress_part002 40) (remote_state client_denied))
     = Inl (Backend permission_denied) \<and>
   fst (deleteTask_part002 env0 ''p1'' ''t1'' (remote_state client_denied))
     = Inl (Backend permission_denied) \<and>
   updateProjects_part002 env0 two_projects (remote_state client_denied)
     = (Inr two_projects,
        console_add (Console_error ''Upsert error:'' (Backend permission_denied))
          (remote_state client_denied)) \<and>
   updateTaskPositions env0 ''p1'' [] (remote_state client_denied)
     = (Inr (),
        console_add (Console_error ''Task Pos Upsert error:'' (Backend permission_denied))
          (remote_state client_denied)) \<and>
   updateProjects_part002 env0 two_projects (remote_state client_without_position)
     = (Inr two_projects, remote_state client_without_position) \<and>
   getRemoteSettings_part002 ''k'' (remote_state client_denied)
     = (Inr None, remote_state client_denied) \<and>
   checkConnectionAndSeed_part002 (remote_state client_denied)
     = (Inr (), remote_state client_denied)"
  using remote_errors_part002 [where s = "remote_state client_denied" and c = client_denied
      and env = env0 and now = 5 and name = "''Launch''" and i = "''d1''" and deptId = "''d1''"
      and projectId = "''p1''" and taskId = "''t1''" and ps = two_projects and ts = "[]"
      and taskData = design_task and taskUpdate = "only_progress_part002 40"
      and k = "''k''" and v = JNull]
    remote_errors_part002 [where s = "remote_state client_tasks_denied"
      and c = client_tasks_denied
      and env = env0 and now = 5 and name = "''Launch''" and i = "''d1''" and deptId = "''d1''"
      and projectId = "''p1''" and taskId = "''t1''" and ps = two_projects and ts = "[]"
      and taskData = design_task and taskUpdate = "only_progress_part002 40"
      and k = "''k''" and v = JNull]
    remote_errors_part002 [where s = "remote_state client_without_position"
      and c = client_without_position
      and env = env0 and now = 5 and name = "''Launch''" and i = "''d1''" and deptId = "''d1''"
      and projectId = "''p1''" and taskId = "''t1''" and ps = two_projects and ts = "[]"
      and taskData = design_task and taskUpdate = "only_progress_part002 40"
      and k = "''k''" and v = JNull]
  by (simp add: remote_remote_state client_denied_def client_tasks_denied_def
      client_without_position_def permission_denied_not_missing undefined_column_missing
      code_permission_denied)

text \<open>
  The claim as it is written has the reorder writes propagate such an error. With
  the backend that denies every request, both resolve; \<^verbatim>\<open>updateProjects\<close> leaves the
  error on the console.
\<close>

theorem reorder_writes_counterexample:
  "\<not> isMissingColumnError (Some permission_denied) ''position'' \<and>
   send client_denied
     (Upsert ''projects''
        [JObj [(''id'', JStr ''p2''), (''name'', JStr ''Audit''), (''position'', JNum 0)],
         JObj [(''id'', JStr ''p1''), (''name'', JStr ''Launch''), (''position'', JNum 1)]])
     = Some permission_denied \<and>
   updateProjects_part002 env0 two_projects (remote_state client_denied)
     = (Inr two_projects,
        (remote_state client_denied)
          \<lparr>console := [Console_error ''Upsert error:'' (Backend permission_denied)]\<rparr>) \<and>
   fst (updateTaskPositions env0 ''p1'' [] (remote_state client_denied)) = Inr ()"
  by (simp add: isMissingColumnError_position toLowerCase_def toLowerCase_char_def
      permission_denied_def client_denied_def updateProjects_part002_def
      updateTaskPositions_def remote_def remote_state_def console_add_def two_projects_def)

subsection \<open>The local store\<close>

lemma DATA_KEY_neq: "SUPABASE_CONFIG_KEY \<noteq> DATA_KEY"
  by (simp add: DATA_KEY_def SUPABASE_CONFIG_KEY_def)

lemma check_AppData_toJSON:
  "truthy (AppData_toJSON d)" "isArray (member (AppData_toJSON d) ''projects'')"
  by (simp_all add: AppData_toJSON_def)

lemma localStorage_writeLocalData:
  "localStorage (writeLocalData d s) DATA_KEY = Some (Serialized (AppData_toJSON d))"
  by (simp add: writeLocalData_def)

lemma readLocalData_writeLocalData:
  "readLocalData env (writeLocalData d s) = (d, writeLocalData d s)"
  by (simp add: readLocalData_def localStorage_writeLocalData check_AppData_toJSON
      AppData_roundtrip)

lemma readLocalData_part002_writeLocalData:
  "readLocalData_part002 env (writeLocalData d s) = (d, writeLocalData d s)"
  by (simp add: readLocalData_part002_def localStorage_writeLocalData
      AppData_part002_roundtrip)

lemma AppData_part000_roundtrip: "AppData_ofJSON_part000 env (AppData_toJSON a) = Some a"
  by (simp add: AppData_ofJSON_part000_def AppData_toJSON_def those_map_roundtrip
      Project_roundtrip Department_roundtrip Employee_roundtrip falsy_def)

lemma readLocalData_part000_writeLocalData:
  "readLocalData_part000 env (writeLocalData d s) = (d, writeLocalData d s)"
  by (simp add: readLocalData_part000_def localStorage_writeLocalData check_AppData_toJSON
      AppData_part000_roundtrip)






lemma remote_writeLocalData: "remote (writeLocalData d s) = remote s"
  by (simp add: remote_def writeLocalData_def)

lemma remote_readLocalData_part002: "remote (snd (readLocalData_part002 env s)) = remote s"
  by (auto simp add: readLocalData_part002_def split: option.splits item.splits)




subsection \<open>Seeding the local store\<close>

lemma remote_local_state: "remote (local_state ls) = None"
  by (simp add: remote_def local_state_def)


lemma readLocalData_part002_empty:
  "readLocalData_part002 env (local_state Map.empty) =
     (getInitialData_part002 env, local_state Map.empty)"
  by (simp add: readLocalData_part002_def local_state_def)

text \<open>
  The read of \<^verbatim>\<open>src/services/apiService.ts\<close>: with no record, or with a record that
  fails the structure check, it returns the seed, which has a project with a task,
  and writes it; a second read returns the same dataset and leaves the store as it is.
\<close>

lemma readLocalData_seeds:
  assumes "localStorage s DATA_KEY = None \<or> localStorage s DATA_KEY = Some Empty_text \<or>
           (\<exists>j. localStorage s DATA_KEY = Some (Serialized j) \<and>
                (\<not> truthy j \<or> \<not> isArray (member j ''projects'')))"
  shows "readLocalData env s = (getInitialData env, writeLocalData (getInitialData env) s) \<and>
         readLocalData env (snd (readLocalData env s)) = readLocalData env s \<and>
         (\<exists>p t. p \<in> set (projects (getInitialData env)) \<and> t \<in> set (tasks p))"
proof -
  have 1: "readLocalData env s = (getInitialData env, writeLocalData (getInitialData env) s)"
    using assms by (auto simp add: readLocalData_def)
  have 2: "\<exists>p t. p \<in> set (projects (getInitialData env)) \<and> t \<in> set (tasks p)"
    by (auto simp add: getInitialData_def)
  show ?thesis
    using 2 by (simp add: 1 readLocalData_writeLocalData)
qed

text \<open>
  C3. The claim has every local read without a record return the seed and write it.
  The read of \<^verbatim>\<open>part_002\<close> on a store with no record returns its seed and writes
  nothing: the store has no record afterwards, where the read of
  \<^verbatim>\<open>src/services/apiService.ts\<close> leaves the seed in it.
\<close>

theorem readLocalData_part002_keeps_store_empty:
  "readLocalData_part002 env0 (local_state Map.empty) =
     (getInitialData_part002 env0, local_state Map.empty) \<and>
   localStorage (snd (readLocalData_part002 env0 (local_state Map.empty))) DATA_KEY = None \<and>
   localStorage (snd (readLocalData env0 (local_state Map.empty))) DATA_KEY =
     Some (Serialized (AppData_toJSON (getInitialData env0)))"
  by (simp add: readLocalData_part002_def readLocalData_def local_state_def writeLocalData_def)

theorem readLocalData_part002_keeps_store_empty_witness:
  "localStorage (snd (readLocalData_part002 env0 (local_state Map.empty))) DATA_KEY
     \<noteq> localStorage (snd (readLocalData env0 (local_state Map.empty))) DATA_KEY"
  using readLocalData_part002_keeps_store_empty by (simp add: local_state_def)

subsection \<open>Toggling remote mode\<close>

lemma readLocalData_fst_cong:
  "localStorage s1 DATA_KEY = localStorage s2 DATA_KEY \<Longrightarrow>
   fst (readLocalData env s1) = fst (readLocalData env s2)"
  by (auto simp add: readLocalData_def split: option.splits item.splits)

lemma readLocalData_part000_fst_cong:
  "localStorage s1 DATA_KEY = localStorage s2 DATA_KEY \<Longrightarrow>
   fst (readLocalData_part000 env s1) = fst (readLocalData_part000 env s2)"
  by (auto simp add: readLocalData_part000_def split: option.splits item.splits)

lemma initSupabase_empty_off:
  assumes "GLOBAL_SUPABASE_URL env = [] \<or> GLOBAL_SUPABASE_KEY env = []"
  shows "initSupabase env [] [] s =
           s\<lparr>supabase := None, useSupabase := False,
             localStorage := (if GLOBAL_SUPABASE_URL env = []
                              then (localStorage s)(SUPABASE_CONFIG_KEY := None)
                              else localStorage s)\<rparr>"
    and "initSupabase_part000 env [] [] s = initSupabase env [] [] s"
  using assms
  by (auto simp add: initSupabase_def initSupabase_part000_def or_string_def removeItem_def Let_def)

lemma getProjects_local:
  "remote s = None \<Longrightarrow> fst (getProjects env s) = Inr (projects (fst (readLocalData env s)))"
  by (simp add: getProjects_def split_beta)

lemma getters_part000_local:
  assumes "remote s = None"
  shows "fst (getProjects_part000 env s) = Inr (projects (fst (readLocalData_part000 env s)))"
    and "fst (getDepartments_part000 env s) = Inr (departments (fst (readLocalData_part000 env s)))"
    and "fst (getEmployees_part000 env s) = Inr (employees (fst (readLocalData_part000 env s)))"
  using assms
  by (simp_all add: getProjects_part000_def getDepartments_part000_def getEmployees_part000_def
      split_beta)

text \<open>
  C4, as amended. When the compiled-in or environment configuration lacks the URL
  or the key, \<^verbatim>\<open>initSupabase("", "")\<close> turns remote mode off and drops the client; it
  removes the stored configuration when there is no global URL, and leaves the store
  as it is otherwise. The reads after it answer from the local store, with the
  dataset that was there before the call: \<^verbatim>\<open>getProjects\<close> in
  \<^verbatim>\<open>src/services/apiService.ts\<close>, and the three list operations in \<^verbatim>\<open>part_000\<close>, whose
  \<^verbatim>\<open>initSupabase\<close> gives the same state. When the global URL and key are both set and
  \<^verbatim>\<open>createClient\<close> gives a client for them, the call connects to that client instead:
  remote mode is on, and the store is as before.
\<close>

theorem initSupabase_empty:
  "(GLOBAL_SUPABASE_URL env = [] \<or> GLOBAL_SUPABASE_KEY env = [] \<longrightarrow>
      (let s' = initSupabase env [] [] s in
         \<not> isSupabaseEnabled s' \<and> supabase s' = None \<and>
         localStorage s' = (if GLOBAL_SUPABASE_URL env = []
                            then (localStorage s)(SUPABASE_CONFIG_KEY := None)
                            else localStorage s) \<and>
         initSupabase_part000 env [] [] s = s' \<and>
         fst (getProjects env s') = Inr (projects (fst (readLocalData env s))) \<and>
         fst (getProjects_part000 env s') = Inr (projects (fst (readLocalData_part000 env s))) \<and>
         fst (getDepartments_part000 env s')
           = Inr (departments (fst (readLocalData_part000 env s))) \<and>
         fst (getEmployees_part000 env s')
           = Inr (employees (fst (readLocalData_part000 env s))))) \<and>
   (GLOBAL_SUPABASE_URL env \<noteq> [] \<and> GLOBAL_SUPABASE_KEY env \<noteq> [] \<longrightarrow>
      (\<forall>c. createClient env (GLOBAL_SUPABASE_URL env) (GLOBAL_SUPABASE_KEY env) = Inr c \<longrightarrow>
         (let s' = initSupabase env [] [] s in
            isSupabaseEnabled s' \<and> remote s' = Some c \<and> localStorage s' = localStorage s \<and>
            remote (initSupabase_part000 env [] [] s) = Some c)))"
proof (intro conjI impI allI)
  assume off: "GLOBAL_SUPABASE_URL env = [] \<or> GLOBAL_SUPABASE_KEY env = []"
  let ?s = "initSupabase env [] [] s"
  have eq: "?s = s\<lparr>supabase := None, useSupabase := False,
             localStorage := (if GLOBAL_SUPABASE_URL env = []
                              then (localStorage s)(SUPABASE_CONFIG_KEY := None)
                              else localStorage s)\<rparr>"
    using off by (rule initSupabase_empty_off)
  have r: "remote ?s = None"
    by (simp add: eq remote_def)
  have k: "localStorage ?s DATA_KEY = localStorage s DATA_KEY"
    using DATA_KEY_neq by (auto simp add: eq)
  show "let s' = ?s in
         \<not> isSupabaseEnabled s' \<and> supabase s' = None \<and>
         localStorage s' = (if GLOBAL_SUPABASE_URL env = []
                            then (localStorage s)(SUPABASE_CONFIG_KEY := None)
                            else localStorage s) \<and>
         initSupabase_part000 env [] [] s = s' \<and>
         fst (getProjects env s') = Inr (projects (fst (readLocalData env s))) \<and>
         fst (getProjects_part000 env s') = Inr (projects (fst (readLocalData_part000 env s))) \<and>
         fst (getDepartments_part000 env s')
           = Inr (departments (fst (readLocalData_part000 env s))) \<and>
         fst (getEmployees_part000 env s')
           = Inr (employees (fst (readLocalData_part000 env s)))"
    unfolding Let_def
    using initSupabase_empty_off(2) [OF off, of s] getProjects_local [OF r, of env]
      getters_part000_local [OF r, of env]
      readLocalData_fst_cong [OF k, of env] readLocalData_part000_fst_cong [OF k, of env]
    by (simp add: isSupabaseEnabled_def) (simp add: eq)
next
  fix c
  assume "GLOBAL_SUPABASE_URL env \<noteq> [] \<and> GLOBAL_SUPABASE_KEY env \<noteq> []"
    and "createClient env (GLOBAL_SUPABASE_URL env) (GLOBAL_SUPABASE_KEY env) = Inr c"
  then show "let s' = initSupabase env [] [] s in
            isSupabaseEnabled s' \<and> remote s' = Some c \<and> localStorage s' = localStorage s \<and>
            remote (initSupabase_part000 env [] [] s) = Some c"
    by (simp add: initSupabase_def initSupabase_part000_def or_string_def Let_def
        isSupabaseEnabled_def remote_def console_add_def)
qed

theorem initSupabase_empty_witness:
  "\<not> isSupabaseEnabled (initSupabase env0 [] [] (remote_state client_denied)) \<and>
   localStorage (initSupabase env0 [] [] (remote_state client_denied)) SUPABASE_CONFIG_KEY = None \<and>
   fst (getProjects env0 (initSupabase env0 [] [] (remote_state client_denied)))
     = Inr (projects (getInitialData env0)) \<and>
   remote (initSupabase env_global [] [] (remote_state client_denied))
     = Some client_without_position"
  using initSupabase_empty [of env0 "remote_state client_denied"]
    initSupabase_empty [of env_global "remote_state client_denied"]
  by (simp add: env0_def env_global_def Let_def readLocalData_def remote_state_def)

text \<open>
  The claim as it is written has the call turn remote mode off in every
  environment. With a global URL and key, remote mode is on after the call, in both
  revisions.
\<close>

theorem initSupabase_empty_counterexample:
  "isSupabaseEnabled (remote_state client_denied) \<and>
   isSupabaseEnabled (initSupabase env_global [] [] (remote_state client_denied)) \<and>
   isSupabaseEnabled (initSupabase_part000 env_global [] [] (remote_state client_denied)) \<and>
   remote (initSupabase env_global [] [] (remote_state client_denied))
     = Some client_without_position"
  by (simp add: initSupabase_def initSupabase_part000_def env_global_def or_string_def Let_def
      isSupabaseEnabled_def remote_def remote_state_def console_add_def)

subsection \<open>Deleting a department\<close>

text \<open>
  \<^verbatim>\<open>deleteDepartment\<close> of \<^verbatim>\<open>part_000\<close> in local mode: no department with the id and no
  employee of that department is left in the stored dataset.
\<close>

lemma deleteDepartment_part000_cascades:
  assumes "remote s = None"
  shows "\<exists>s'. deleteDepartment_part000 env i s = (Inr (), s') \<and>
           (\<forall>e \<in> set (employees (fst (readLocalData_part000 env s'))). departmentId e \<noteq> i) \<and>
           (\<forall>d \<in> set (departments (fst (readLocalData_part000 env s'))). department_id d \<noteq> i)"
  using assms
  by (simp add: deleteDepartment_part000_def split_beta readLocalData_part000_writeLocalData)

text \<open>
  C6. The claim has the local delete of a department remove its employees as well.
  \<^verbatim>\<open>deleteDepartment\<close> of \<^verbatim>\<open>part_002\<close> in local mode removes the department and
  leaves its employees: from a dataset with the department \<^verbatim>\<open>d1\<close> and the employee
  \<^verbatim>\<open>e1\<close> of that department, deleting \<^verbatim>\<open>d1\<close> leaves \<^verbatim>\<open>e1\<close> in the stored dataset.
\<close>

theorem deleteDepartment_part002_leaves_employees:
  "fst (deleteDepartment_part002 env0 ''d1'' (writeLocalData staffed (local_state Map.empty)))
     = Inr () \<and>
   fst (readLocalData_part002 env0
          (snd (deleteDepartment_part002 env0 ''d1''
                  (writeLocalData staffed (local_state Map.empty)))))
     = staffed\<lparr>departments := []\<rparr> \<and>
   employees (staffed\<lparr>departments := []\<rparr>) =
     [\<lparr>employee_id = ''e1'', employee_name = ''Ada'', departmentId = ''d1''\<rparr>]"
  by (simp add: deleteDepartment_part002_def remote_writeLocalData remote_local_state
      readLocalData_part002_writeLocalData staffed_def)

theorem deleteDepartment_part002_leaves_employees_witness:
  "map departmentId
     (employees (fst (readLocalData_part002 env0
        (snd (deleteDepartment_part002 env0 ''d1''
                (writeLocalData staffed (local_state Map.empty)))))))
     = [''d1'']"
  using deleteDepartment_part002_leaves_employees by simp

subsection \<open>Creating tasks\<close>

text \<open>
  \<^verbatim>\<open>addTask\<close> of \<^verbatim>\<open>src/services/apiService.ts\<close>: the created task has progress 0, one
  of the six colours, and the identifier made of the prefix, the clock's reading and
  the random suffix; at one reading of the clock two identifiers are the same exactly
  when the suffixes are.
\<close>

lemma addTask_created:
  assumes "fst (addTask env now pick suffix projectId taskData s) = Inr t" and "pick < length colors"
  shows "progress t = 0 \<and> color t \<noteq> [] \<and> task_id t = ''task-'' @ decimal now @ ''-'' @ suffix"
proof -
  have "colors ! pick \<in> set colors"
    using assms(2) by simp
  then have "colors ! pick \<noteq> []"
    by (auto simp add: colors_def)
  moreover have "t = \<lparr>task_id = ''task-'' @ decimal now @ ''-'' @ suffix,
                     task_name = data_name taskData,
                     startDate = data_startDate taskData, endDate = data_endDate taskData,
                     color = colors ! pick, employeeId = data_employeeId taskData,
                     progress = 0, description = data_description taskData\<rparr>"
    using assms(1)
    by (auto simp add: addTask_def Let_def throwIf_def split_beta split: option.splits)
  ultimately show ?thesis by simp
qed

lemma addTask_ids_same_clock:
  "(''task-'' @ decimal now @ ''-'' @ suffix1 = ''task-'' @ decimal now @ ''-'' @ suffix2)
     = (suffix1 = suffix2)"
  by simp

text \<open>
  C8. The claim has the identifier of a created task carry a random suffix, so that
  two creates at one reading of the clock do not collide. \<^verbatim>\<open>addTask\<close> of \<^verbatim>\<open>part_002\<close>
  makes the identifier of the prefix and the clock's reading only (the task has
  progress 0 and the colour \<^verbatim>\<open>bg-blue-500\<close>). Two calls at the same reading, on an
  empty local store, leave two tasks with the same identifier in the project.
\<close>

theorem addTask_part002_collides:
  "fst (addTask_part002 env0 1700000000000 ''p1'' design_task (local_state Map.empty)) =
     Inr \<lparr>task_id = ''task-1700000000000'', task_name = ''Design'',
          startDate = 1704067200000, endDate = 1704412800000, color = ''bg-blue-500'',
          employeeId = ''e1'', progress = 0, description = None\<rparr> \<and>
   map (map task_id \<circ> tasks)
     (projects (fst (readLocalData_part002 env0
        (snd (addTask_part002 env0 1700000000000 ''p1'' design_task
           (snd (addTask_part002 env0 1700000000000 ''p1'' design_task
              (local_state Map.empty))))))))
     = [[''t1'', ''task-1700000000000'', ''task-1700000000000'']]"
  by (simp add: addTask_part002_def newTask_part002_def remote_writeLocalData remote_local_state
      readLocalData_part002_writeLocalData readLocalData_part002_empty
      getInitialData_part002_def Let_def decimal.simps digit_def design_task_def)

theorem addTask_part002_collides_witness:
  "\<not> distinct (concat (map (map task_id \<circ> tasks)
     (projects (fst (readLocalData_part002 env0
        (snd (addTask_part002 env0 1700000000000 ''p1'' design_task
           (snd (addTask_part002 env0 1700000000000 ''p1'' design_task
              (local_state Map.empty))))))))))"
  using addTask_part002_collides by simp

subsection \<open>The stores \<^verbatim>\<open>part_002\<close> leaves\<close>





subsection \<open>Updating a task\<close>













lemma updates_of_name_empty:
  "upd_name u = Some [] \<Longrightarrow> member (updates_of u) ''name'' = None"
  by (simp add: updates_of_def split: option.splits)







subsection \<open>Deleting in the local store\<close>










subsection \<open>A target that is absent from the local store\<close>




subsection \<open>What \<^verbatim>\<open>deleteTask\<close> resolves with\<close>

text \<open>
  C9. Whenever \<^verbatim>\<open>deleteTask\<close> of \<^verbatim>\<open>src/services/apiService.ts\<close> resolves, the id of the
  value is the \<^verbatim>\<open>projectId\<close> argument, whatever the \<^verbatim>\<open>taskId\<close>: it resolves so in local
  mode always, and in remote mode when the backend accepts the delete (it rejects
  with the backend's error otherwise). \<^verbatim>\<open>deleteTask\<close> of \<^verbatim>\<open>part_002\<close> resolves with the
  \<^verbatim>\<open>taskId\<close>.
\<close>

theorem deleteTask_resolves_with_projectId:
  "(\<forall>r. fst (deleteTask env projectId taskId s) = Inr r \<longrightarrow> r = projectId) \<and>
   (remote s = None \<longrightarrow> fst (deleteTask env projectId taskId s) = Inr projectId) \<and>
   (\<forall>c. remote s = Some c \<longrightarrow>
      fst (deleteTask env projectId taskId s) =
        (case send c (Delete ''tasks'' taskId) of
           None \<Rightarrow> Inr projectId | Some e \<Rightarrow> Inl (Backend e))) \<and>
   (\<forall>r. fst (deleteTask_part002 env projectId taskId s) = Inr r \<longrightarrow> r = taskId)"
  by (auto simp add: deleteTask_def deleteTask_part002_def throwIf_def split_beta
      split: option.splits)

theorem deleteTask_resolves_with_projectId_witness:
  "fst (deleteTask env0 ''p1'' ''t1'' (local_state Map.empty)) = Inr ''p1'' \<and>
   fst (deleteTask env0 ''p1'' ''t2'' (local_state Map.empty)) = Inr ''p1'' \<and>
   fst (deleteTask env0 ''p1'' ''t1'' (remote_state client_without_position)) = Inr ''p1'' \<and>
   fst (deleteTask env0 ''p1'' ''t1'' (remote_state client_denied))
     = Inl (Backend permission_denied)"
  using deleteTask_resolves_with_projectId [of env0 "''p1''" "''t1''" "local_state Map.empty"]
    deleteTask_resolves_with_projectId [of env0 "''p1''" "''t2''" "local_state Map.empty"]
    deleteTask_resolves_with_projectId [of env0 "''p1''" "''t1''"
      "remote_state client_without_position"]
    deleteTask_resolves_with_projectId [of env0 "''p1''" "''t1''" "remote_state client_denied"]
  by (simp add: remote_local_state remote_remote_state client_without_position_def
      client_denied_def)

subsection \<open>Deleting what is not there, and deleting twice\<close>







end
